theory Spec2Isabelle
  imports Main "HOL-Library.AList"
begin

section \<open>Python values\<close>

text \<open>
  The values that the property caches, the import cache and the reference resolver of
  \<^verbatim>\<open>hotsos/core/ycheck/engine/properties/common.py\<close> handle. A Python dict is an
  association list in insertion order with string keys (cache keys are attribute names);
  \<open>VCache\<close> is a \<^verbatim>\<open>PropertyCache\<close> object, given by its concrete class and its
  \<^verbatim>\<open>_property_cache_data\<close>; \<open>VObj\<close> is any other object, given by its class name and
  its identity; \<open>VMethod\<close> is a method bound to an object, given by the class of the
  object and the name of the method.
\<close>

datatype pyval =
    VNone
  | VBool bool
  | VInt int
  | VStr string
  | VList "pyval list"
  | VDict "(string \<times> pyval) list"
  | VCache string "(string \<times> pyval) list"
  | VClass string
  | VObj string nat
  | VMethod string string

type_synonym pydict = "(string \<times> pyval) list"

text \<open>Python truthiness (\<^verbatim>\<open>if x:\<close>); classes and plain objects are truthy.\<close>

fun truthy :: "pyval \<Rightarrow> bool" where
  "truthy VNone = False"
| "truthy (VBool b) = b"
| "truthy (VInt i) = (i \<noteq> 0)"
| "truthy (VStr s) = (s \<noteq> [])"
| "truthy (VList xs) = (xs \<noteq> [])"
| "truthy (VDict d) = (d \<noteq> [])"
| "truthy (VCache c d) = True"
| "truthy (VClass c) = True"
| "truthy (VObj c i) = True"
| "truthy (VMethod c n) = True"

text \<open>\<^verbatim>\<open>type(x) == dict\<close>.\<close>

fun is_dict :: "pyval \<Rightarrow> bool" where
  "is_dict (VDict d) = True"
| "is_dict _ = False"

subsection \<open>Dict operations\<close>

text \<open>\<^verbatim>\<open>d.get(k)\<close> as an option, \<^verbatim>\<open>k in d\<close>, \<^verbatim>\<open>d[k] = v\<close> and \<^verbatim>\<open>d.update(other)\<close>.
  Assignment replaces the value of an existing key in place and appends a new key, as
  Python's insertion order has it; \<^verbatim>\<open>update\<close> assigns the entries of \<open>other\<close> in order.\<close>

definition dict_get :: "(string \<times> 'v) list \<Rightarrow> string \<Rightarrow> 'v option" where
  "dict_get d k = map_of d k"

definition dict_has :: "(string \<times> 'v) list \<Rightarrow> string \<Rightarrow> bool" where
  "dict_has d k = (k \<in> set (map fst d))"

definition dict_set :: "(string \<times> 'v) list \<Rightarrow> string \<Rightarrow> 'v \<Rightarrow> (string \<times> 'v) list" where
  "dict_set d k v = AList.update k v d"

definition dict_update :: "(string \<times> 'v) list \<Rightarrow> (string \<times> 'v) list \<Rightarrow> (string \<times> 'v) list" where
  "dict_update d other = fold (\<lambda>(k, v) acc. dict_set acc k v) other d"

section \<open>PropertyCache\<close>

text \<open>
  \<^verbatim>\<open>class PropertyCache\<close>: \<open>cache_class\<close> is the object's concrete class
  (\<^verbatim>\<open>self.__class__\<close>), \<open>property_cache_data\<close> is \<^verbatim>\<open>self._property_cache_data\<close>.
\<close>

record property_cache =
  cache_class :: string
  property_cache_data :: pydict

text \<open>\<^verbatim>\<open>PropertyCache.__init__\<close> for an object of class \<open>cls\<close>.\<close>

definition new_cache :: "string \<Rightarrow> property_cache" where
  "new_cache cls = \<lparr>cache_class = cls, property_cache_data = []\<rparr>"

text \<open>
  \<^verbatim>\<open>PropertyCache.merge(self, cache)\<close>. The argument is any Python value; when its type
  is not the class of \<open>self\<close> the error is logged and \<open>self\<close> is left as it is, otherwise
  \<^verbatim>\<open>self._property_cache_data.update(cache.data)\<close>.
\<close>

fun merge :: "property_cache \<Rightarrow> pyval \<Rightarrow> property_cache" where
  "merge self (VCache cls d) =
     (if cls \<noteq> cache_class self then self
      else self\<lparr>property_cache_data := dict_update (property_cache_data self) d\<rparr>)"
| "merge self _ = self"

text \<open>
  \<^verbatim>\<open>PropertyCache.set(self, key, data)\<close>: \<open>current\<close> is
  \<^verbatim>\<open>self._property_cache_data.get(key)\<close>; when it is truthy and both it and \<open>data\<close> are
  dicts, the stored dict is updated with \<open>data\<close>, otherwise the entry is assigned.
\<close>

fun the_dict :: "pyval \<Rightarrow> pydict" where
  "the_dict (VDict d) = d"
| "the_dict _ = []"

definition dict_get_none :: "pydict \<Rightarrow> string \<Rightarrow> pyval" where
  "dict_get_none d k = (case dict_get d k of Some v \<Rightarrow> v | None \<Rightarrow> VNone)"

definition cache_set :: "property_cache \<Rightarrow> string \<Rightarrow> pyval \<Rightarrow> property_cache" where
  "cache_set self key data =
     (let current = dict_get_none (property_cache_data self) key in
      if truthy current \<and> is_dict current \<and> is_dict data
      then self\<lparr>property_cache_data :=
             dict_set (property_cache_data self) key
               (VDict (dict_update (the_dict current) (the_dict data)))\<rparr>
      else self\<lparr>property_cache_data := dict_set (property_cache_data self) key data\<rparr>)"

text \<open>
  \<^verbatim>\<open>PropertyCache.__getattr__(self, key)\<close>, the method that Python runs for an
  attribute-style read of a name that is not an attribute of the object or of its class
  (such as \<^verbatim>\<open>merge\<close>, \<^verbatim>\<open>set\<close>, \<^verbatim>\<open>id\<close> and \<^verbatim>\<open>data\<close>), which is how a cache key is
  read: the stored value when \<^verbatim>\<open>key in self.data\<close>, and otherwise the method falls off
  its end and returns \<^verbatim>\<open>None\<close>.
\<close>

definition cache_getattr :: "property_cache \<Rightarrow> string \<Rightarrow> pyval" where
  "cache_getattr self key =
     (if dict_has (property_cache_data self) key
      then dict_get_none (property_cache_data self) key
      else VNone)"

section \<open>Strings\<close>

text \<open>\<^verbatim>\<open>s.startswith(p)\<close>, \<^verbatim>\<open>s.partition(sep)\<close> and \<^verbatim>\<open>s.rpartition(sep)\<close> for a
  non-empty separator: the parts before and after the first (last) occurrence, and the
  whole string with two empty parts when there is none.\<close>

definition startswith :: "string \<Rightarrow> string \<Rightarrow> bool" where
  "startswith s p = (take (length p) s = p)"

fun str_partition :: "string \<Rightarrow> string \<Rightarrow> string \<times> string \<times> string" where
  "str_partition [] sep = ([], [], [])"
| "str_partition (c # cs) sep =
     (if startswith (c # cs) sep then ([], sep, drop (length sep) (c # cs))
      else (case str_partition cs sep of (a, b, r) \<Rightarrow> (c # a, b, r)))"

definition str_rpartition :: "string \<Rightarrow> string \<Rightarrow> string \<times> string \<times> string" where
  "str_rpartition s sep =
     (case str_partition (rev s) (rev sep) of
        (a, b, r) \<Rightarrow> if b = [] then ([], [], s) else (rev r, sep, rev a))"

definition part0 :: "string \<times> string \<times> string \<Rightarrow> string" where
  "part0 p = fst p"

definition part2 :: "string \<times> string \<times> string \<Rightarrow> string" where
  "part2 p = snd (snd p)"

fun join :: "string \<Rightarrow> string list \<Rightarrow> string" where
  "join sep [] = []"
| "join sep [x] = x"
| "join sep (x # y # ys) = x @ sep @ join sep (y # ys)"

section \<open>Exceptions\<close>

text \<open>
  The exceptions the modelled code raises. The first six are all Python's plain
  \<^verbatim>\<open>Exception\<close>, told apart by their message: \<open>InvalidCacheRef\<close> is
  "... is not a valid property cache reference or variable", \<open>ChecksNotProvided\<close> is
  "... is a checks cache reference but checks dict not provided", \<open>UnknownRefType\<close> is
  "unknown ref type", \<open>RefNotChecks\<close> is "ref does not have type 'checks'",
  \<open>NotACheckReftype\<close> is "not a check reftype" and \<open>UnknownLogicalOperator\<close> is
  "unknown logical operator '...' found". \<open>ImportError\<close> stands for the class and its
  subclass \<^verbatim>\<open>ModuleNotFoundError\<close>.
\<close>

datatype exc =
    InvalidCacheRef pyval
  | ChecksNotProvided string
  | UnknownRefType
  | RefNotChecks
  | NotACheckReftype
  | UnknownLogicalOperator string
  | ImportError
  | AttributeError
  | KeyError
  | TypeError
  | ValueError
  | NotImplementedError
  | OtherError string

section \<open>Attribute reads\<close>

text \<open>
  What the model takes from the Python runtime: \<open>builtins\<close> is the module \<^verbatim>\<open>builtins\<close>,
  giving the function of a name or \<open>None\<close> when it has none; \<open>object_id\<close> is \<^verbatim>\<open>id(obj)\<close>;
  \<open>object_attribute cls name\<close> is the normal attribute lookup on an object of the class
  named \<open>cls\<close>, for the attributes that this file does not define itself (those that every
  object has, such as \<^verbatim>\<open>__class__\<close> and \<^verbatim>\<open>__doc__\<close>, and those of the built-in types): the
  value as a function of the object, or \<open>None\<close> when the lookup raises
  \<^verbatim>\<open>AttributeError\<close>.
\<close>

record python =
  builtins :: "string \<Rightarrow> (pyval \<Rightarrow> exc + pyval) option"
  object_id :: "pyval \<Rightarrow> int"
  object_attribute :: "string \<Rightarrow> string \<Rightarrow> (pyval \<Rightarrow> pyval) option"

text \<open>\<^verbatim>\<open>type(x).__name__\<close>.\<close>

fun type_name :: "pyval \<Rightarrow> string" where
  "type_name VNone = ''NoneType''"
| "type_name (VBool b) = ''bool''"
| "type_name (VInt i) = ''int''"
| "type_name (VStr s) = ''str''"
| "type_name (VList xs) = ''list''"
| "type_name (VDict d) = ''dict''"
| "type_name (VCache cls d) = cls"
| "type_name (VClass c) = ''type''"
| "type_name (VObj cls i) = cls"
| "type_name (VMethod cls n) = ''method''"

text \<open>
  The normal attribute lookup on a \<^verbatim>\<open>PropertyCache\<close> object, which Python does before it
  tries \<^verbatim>\<open>__getattr__\<close>. The class body defines the methods \<^verbatim>\<open>__init__\<close>, \<^verbatim>\<open>merge\<close>,
  \<^verbatim>\<open>set\<close> and \<^verbatim>\<open>__getattr__\<close> and the properties \<^verbatim>\<open>id\<close> (\<^verbatim>\<open>id(self)\<close>) and \<^verbatim>\<open>data\<close>
  (\<^verbatim>\<open>self._property_cache_data\<close>), and \<^verbatim>\<open>__init__\<close> gives the object the attribute
  \<^verbatim>\<open>_property_cache_data\<close>; any other name is looked up as on every object. \<open>None\<close> is
  the \<^verbatim>\<open>AttributeError\<close> of a name that is not found.
\<close>

definition cache_attribute :: "python \<Rightarrow> property_cache \<Rightarrow> string \<Rightarrow> pyval option" where
  "cache_attribute py self name =
     (if name = ''_property_cache_data'' \<or> name = ''data''
      then Some (VDict (property_cache_data self))
      else if name = ''id''
      then Some (VInt (object_id py (VCache (cache_class self) (property_cache_data self))))
      else if name \<in> set [''__init__'', ''merge'', ''set'', ''__getattr__'']
      then Some (VMethod (cache_class self) name)
      else (case object_attribute py (cache_class self) name of
              None \<Rightarrow> None
            | Some f \<Rightarrow> Some (f (VCache (cache_class self) (property_cache_data self)))))"

text \<open>
  \<^verbatim>\<open>getattr(cache, name)\<close> on a \<^verbatim>\<open>PropertyCache\<close>: the attribute that the normal lookup
  finds, and \<^verbatim>\<open>cache.__getattr__(name)\<close> when it finds none. This is the attribute-style
  read of a cache key.
\<close>

definition getattr_cache :: "python \<Rightarrow> property_cache \<Rightarrow> string \<Rightarrow> pyval" where
  "getattr_cache py self name =
     (case cache_attribute py self name of
        Some v \<Rightarrow> v
      | None \<Rightarrow> cache_getattr self name)"

text \<open>
  \<^verbatim>\<open>getattr(obj, name)\<close> on any value: as above on a \<^verbatim>\<open>PropertyCache\<close>; on another
  value, \<^verbatim>\<open>None\<close> among them, the attribute that the normal lookup finds and
  \<^verbatim>\<open>AttributeError\<close> when it finds none.
\<close>

fun py_getattr :: "python \<Rightarrow> pyval \<Rightarrow> string \<Rightarrow> exc + pyval" where
  "py_getattr py (VCache cls d) name =
     Inr (getattr_cache py \<lparr>cache_class = cls, property_cache_data = d\<rparr> name)"
| "py_getattr py v name =
     (case object_attribute py (type_name v) name of
        None \<Rightarrow> Inl AttributeError
      | Some f \<Rightarrow> Inr (f v))"

text \<open>
  A small runtime for the examples: the built-in \<^verbatim>\<open>len\<close>, one identity for every object,
  and \<^verbatim>\<open>__class__\<close> as the one attribute that every object has.
\<close>

fun py_len :: "pyval \<Rightarrow> exc + pyval" where
  "py_len (VStr s) = Inr (VInt (int (length s)))"
| "py_len (VList xs) = Inr (VInt (int (length xs)))"
| "py_len (VDict d) = Inr (VInt (int (length d)))"
| "py_len _ = Inl TypeError"

definition demo_python :: python where
  "demo_python =
     \<lparr>builtins = (\<lambda>f. if f = ''len'' then Some py_len else None),
      object_id = (\<lambda>v. 0),
      object_attribute =
        (\<lambda>cls name. if name = ''__class__'' then Some (\<lambda>v. VClass cls) else None)\<rparr>"

section \<open>PropertyCacheRefResolver\<close>

text \<open>\<^verbatim>\<open>is_valid_cache_ref(cls, refstr)\<close>: false for anything that is not a \<^verbatim>\<open>str\<close>.\<close>

fun is_valid_cache_ref :: "pyval \<Rightarrow> bool" where
  "is_valid_cache_ref (VStr refstr) =
     (if \<not> (startswith refstr ''@'' \<or> startswith refstr ''$'') then False else True)"
| "is_valid_cache_ref _ = False"

text \<open>The property \<^verbatim>\<open>reftype\<close>.\<close>

definition reftype :: "string \<Rightarrow> exc + string" where
  "reftype refstr =
     (if startswith refstr ''$'' then Inr ''variable''
      else if startswith refstr ''@checks.'' then Inr ''checks''
      else Inl UnknownRefType)"

text \<open>
  The resolver object: \<open>vars\<close> is the object whose \<^verbatim>\<open>resolve(varname)\<close> is called
  (\<open>None\<close> when not given), \<open>checks\<close> maps a check's name to the \<^verbatim>\<open>.cache\<close> of that check
  (\<open>None\<close> when not given).
\<close>

record ref_resolver =
  refstr :: string
  vars :: "(string \<Rightarrow> exc + pyval) option"
  checks :: "(string \<times> property_cache) list option"

text \<open>\<^verbatim>\<open>PropertyCacheRefResolver.__init__(self, refstr, vars=None, checks=None)\<close>.\<close>

definition resolver_init ::
  "pyval \<Rightarrow> (string \<Rightarrow> exc + pyval) option \<Rightarrow> (string \<times> property_cache) list option
     \<Rightarrow> exc + ref_resolver" where
  "resolver_init r vs cs =
     (if \<not> is_valid_cache_ref r then Inl (InvalidCacheRef r)
      else (case r of
              VStr s \<Rightarrow>
                (case reftype s of
                   Inl e \<Rightarrow> Inl e
                 | Inr t \<Rightarrow>
                     if t = ''checks'' \<and> cs = None then Inl (ChecksNotProvided s)
                     else Inr \<lparr>refstr = s, vars = vs, checks = cs\<rparr>)
            | _ \<Rightarrow> Inl (InvalidCacheRef r)))"

text \<open>The properties \<^verbatim>\<open>check_name\<close>, \<^verbatim>\<open>_ref_body\<close>, \<^verbatim>\<open>property_name\<close> (\<open>None\<close> for a
  variable reference), \<^verbatim>\<open>property_cache_key\<close> and
  \<^verbatim>\<open>property_cache_value_renderer_function\<close>, as functions of \<^verbatim>\<open>self.refstr\<close>.\<close>

definition check_name :: "string \<Rightarrow> exc + string" where
  "check_name s =
     (case reftype s of
        Inl e \<Rightarrow> Inl e
      | Inr t \<Rightarrow>
          if t \<noteq> ''checks'' then Inl RefNotChecks
          else Inr (part0 (str_partition (part2 (str_partition s ''@checks.'')) ''.'')))"

definition ref_body :: "string \<Rightarrow> exc + string" where
  "ref_body s =
     (case reftype s of
        Inl e \<Rightarrow> Inl e
      | Inr t \<Rightarrow>
          if t = ''variable'' then Inr (part2 (str_partition s ''$''))
          else (case check_name s of
                  Inl e \<Rightarrow> Inl e
                | Inr cn \<Rightarrow> Inr (part2 (str_partition s (''@checks.'' @ cn @ ''.'')))))"

definition property_name :: "string \<Rightarrow> exc + string option" where
  "property_name s =
     (case reftype s of
        Inl e \<Rightarrow> Inl e
      | Inr t \<Rightarrow>
          if t = ''checks''
          then (case ref_body s of
                  Inl e \<Rightarrow> Inl e
                | Inr b \<Rightarrow> Inr (Some (part0 (str_partition b ''.''))))
          else Inr None)"

definition property_cache_key :: "string \<Rightarrow> exc + string" where
  "property_cache_key s =
     (case reftype s of
        Inl e \<Rightarrow> Inl e
      | Inr t \<Rightarrow>
          if t = ''checks''
          then (case ref_body s of
                  Inl e \<Rightarrow> Inl e
                | Inr b \<Rightarrow> Inr (part0 (str_partition (part2 (str_partition b ''.'')) '':'')))
          else Inl NotACheckReftype)"

definition property_cache_value_renderer_function :: "string \<Rightarrow> exc + string" where
  "property_cache_value_renderer_function s =
     (case reftype s of
        Inl e \<Rightarrow> Inl e
      | Inr t \<Rightarrow>
          (case ref_body s of
             Inl e \<Rightarrow> Inl e
           | Inr b \<Rightarrow>
               Inr (part2 (str_partition
                      (if t = ''checks'' then part2 (str_partition b ''.'') else b) '':''))))"

text \<open>
  \<^verbatim>\<open>', '.join(value)\<close>: a list of strings, the characters of a string or the keys of a
  dict are joined; a list with another element and a value that is not iterable raise
  \<^verbatim>\<open>TypeError\<close> (a plain object is taken as not iterable).
\<close>

fun is_str :: "pyval \<Rightarrow> bool" where
  "is_str (VStr s) = True"
| "is_str _ = False"

fun the_str :: "pyval \<Rightarrow> string" where
  "the_str (VStr s) = s"
| "the_str _ = []"

fun comma_join :: "pyval \<Rightarrow> exc + pyval" where
  "comma_join (VList xs) =
     (if list_all is_str xs then Inr (VStr (join '', '' (map the_str xs))) else Inl TypeError)"
| "comma_join (VStr s) = Inr (VStr (join '', '' (map (\<lambda>c. [c]) s)))"
| "comma_join (VDict d) = Inr (VStr (join '', '' (map fst d)))"
| "comma_join _ = Inl TypeError"

text \<open>
  \<^verbatim>\<open>apply_renderer_function(self, value)\<close>: \<^verbatim>\<open>getattr(builtins, func)\<close> raises
  \<^verbatim>\<open>AttributeError\<close> for a name that \<^verbatim>\<open>builtins\<close> does not have.
\<close>

definition apply_renderer_function :: "python \<Rightarrow> ref_resolver \<Rightarrow> pyval \<Rightarrow> exc + pyval" where
  "apply_renderer_function py self v =
     (case property_cache_value_renderer_function (refstr self) of
        Inl e \<Rightarrow> Inl e
      | Inr func \<Rightarrow>
          if func \<noteq> [] then
            (if func = ''comma_join'' then comma_join v
             else (case builtins py func of None \<Rightarrow> Inl AttributeError | Some f \<Rightarrow> f v))
          else Inr v)"

text \<open>
  \<^verbatim>\<open>resolve(self)\<close>, in two parts: \<open>resolve_value\<close> is the \<^verbatim>\<open>if\<close>/\<^verbatim>\<open>else\<close> that reads
  \<^verbatim>\<open>val\<close> from the named check's cache or from the variables, with both reads of the
  cache form done by \<^verbatim>\<open>getattr\<close>; \<open>resolve\<close> is the whole method, which returns
  \<^verbatim>\<open>None\<close> when \<^verbatim>\<open>val is None\<close> and the rendered value otherwise.
\<close>

definition resolve_value :: "python \<Rightarrow> ref_resolver \<Rightarrow> exc + pyval" where
  "resolve_value py self =
     (case reftype (refstr self) of
        Inl e \<Rightarrow> Inl e
      | Inr t \<Rightarrow>
          if t = ''checks'' then
            (case check_name (refstr self) of
               Inl e \<Rightarrow> Inl e
             | Inr cn \<Rightarrow>
                 (case checks self of
                    None \<Rightarrow> Inl TypeError
                  | Some cs \<Rightarrow>
                      (case dict_get cs cn of
                         None \<Rightarrow> Inl KeyError
                       | Some check_cache \<Rightarrow>
                           (case property_name (refstr self) of
                              Inl e \<Rightarrow> Inl e
                            | Inr None \<Rightarrow> Inl TypeError
                            | Inr (Some pn) \<Rightarrow>
                                (let property_cache = getattr_cache py check_cache pn
                                 in (case property_cache_key (refstr self) of
                                       Inl e \<Rightarrow> Inl e
                                     | Inr k \<Rightarrow> py_getattr py property_cache k))))))
          else
            (let varname = part0 (str_partition (part2 (str_partition (refstr self) ''$'')) '':'')
             in (case vars self of None \<Rightarrow> Inl AttributeError | Some v \<Rightarrow> v varname)))"

definition resolve :: "python \<Rightarrow> ref_resolver \<Rightarrow> exc + pyval" where
  "resolve py self =
     (case resolve_value py self of
        Inl e \<Rightarrow> Inl e
      | Inr val \<Rightarrow> if val = VNone then Inr VNone else apply_renderer_function py self val)"

section \<open>Dynamic lookup: YPropertyBase\<close>

text \<open>
  The run context \<^verbatim>\<open>YDefsContext\<close>, with its reserved entry: \<open>import_cache\<close> is
  \<^verbatim>\<open>getattr(self.context, 'import_cache')\<close>, \<open>None\<close> while the entry has not been set and
  a dict from then on (only \<^verbatim>\<open>_add_to_import_cache\<close> writes it).
\<close>

record ydefs_context =
  import_cache :: "pydict option"

text \<open>
  What a lookup does to the world outside the import cache: a module import, a class
  instantiation, a property read. The run state is \<^verbatim>\<open>self.context\<close> (\<open>None\<close> when no
  context is available), the identity of the next object to be made, and the events so
  far.
\<close>

datatype event =
    ImportModule string
  | Construct pyval
  | ReadProperty pyval string

record run_state =
  run_context :: "ydefs_context option"
  next_id :: nat
  events :: "event list"

text \<open>
  The Python runtime that the lookups call: \<open>import_module\<close> is
  \<^verbatim>\<open>importlib.import_module\<close>, giving the attributes of the module or the exception it
  raises; \<open>instantiate cls i\<close> is \<^verbatim>\<open>cls()\<close>, where \<open>i\<close> is the identity for the new
  object; \<open>getattr_of\<close> is \<^verbatim>\<open>getattr(cls_inst, property)\<close>; \<open>format_of\<close> is
  \<^verbatim>\<open>"{}".format(cls)\<close>.
\<close>

record runtime =
  import_module :: "string \<Rightarrow> exc + pydict"
  instantiate :: "pyval \<Rightarrow> nat \<Rightarrow> exc + pyval"
  getattr_of :: "pyval \<Rightarrow> string \<Rightarrow> exc + pyval"
  format_of :: "pyval \<Rightarrow> string"

text \<open>\<^verbatim>\<open>_load_from_import_cache(self, key)\<close>.\<close>

definition load_from_import_cache :: "run_state \<Rightarrow> string \<Rightarrow> pyval" where
  "load_from_import_cache s key =
     (case run_context s of
        None \<Rightarrow> VNone
      | Some ctx \<Rightarrow>
          (case import_cache ctx of
             None \<Rightarrow> VNone
           | Some c \<Rightarrow> if c \<noteq> [] then dict_get_none c key else VNone))"

text \<open>\<^verbatim>\<open>_add_to_import_cache(self, key, value)\<close>.\<close>

definition add_to_import_cache :: "run_state \<Rightarrow> string \<Rightarrow> pyval \<Rightarrow> run_state" where
  "add_to_import_cache s key v =
     (case run_context s of
        None \<Rightarrow> s
      | Some ctx \<Rightarrow>
          (case import_cache ctx of
             None \<Rightarrow> s\<lparr>run_context := Some (ctx\<lparr>import_cache := Some [(key, v)]\<rparr>)\<rparr>
           | Some c \<Rightarrow>
               if c \<noteq> []
               then s\<lparr>run_context := Some (ctx\<lparr>import_cache := Some (dict_set c key v)\<rparr>)\<rparr>
               else s\<lparr>run_context := Some (ctx\<lparr>import_cache := Some [(key, v)]\<rparr>)\<rparr>))"

text \<open>
  \<^verbatim>\<open>get_cls(self, import_str)\<close>: \<open>import_cls\<close> is the part after the cache read, which
  imports the module, reads the class from it, re-raises whatever was raised, and saves
  the class in the import cache.
\<close>

definition import_cls :: "runtime \<Rightarrow> string \<Rightarrow> run_state \<Rightarrow> (exc + pyval) \<times> run_state" where
  "import_cls rt import_str s =
     (let module = part0 (str_rpartition import_str ''.'');
          class_name = part2 (str_rpartition import_str ''.'');
          s1 = s\<lparr>events := events s @ [ImportModule module]\<rparr>
      in (case import_module rt module of
            Inl e \<Rightarrow> (Inl e, s1)
          | Inr m \<Rightarrow>
              (case dict_get m class_name of
                 None \<Rightarrow> (Inl AttributeError, s1)
               | Some ret \<Rightarrow> (Inr ret, add_to_import_cache s1 import_str ret))))"

definition get_cls :: "runtime \<Rightarrow> string \<Rightarrow> run_state \<Rightarrow> (exc + pyval) \<times> run_state" where
  "get_cls rt import_str s =
     (let ret = load_from_import_cache s import_str
      in if truthy ret then (Inr ret, s) else import_cls rt import_str s)"

text \<open>
  \<^verbatim>\<open>get_property(self, import_str)\<close>: \<open>resolve_property\<close> is the part after the cache
  read. It gets the class, takes the instance saved under \<^verbatim>\<open>"{}.object".format(cls)\<close>
  or makes and saves one, reads the property, re-raises whatever was raised, and saves
  the value in the import cache.
\<close>

definition instance_of_cls :: "runtime \<Rightarrow> pyval \<Rightarrow> run_state \<Rightarrow> (exc + pyval) \<times> run_state" where
  "instance_of_cls rt cls s =
     (let key = format_of rt cls @ ''.object'';
          cls_inst = load_from_import_cache s key
      in if \<not> truthy cls_inst then
           (let s1 = s\<lparr>next_id := Suc (next_id s), events := events s @ [Construct cls]\<rparr>
            in (case instantiate rt cls (next_id s) of
                  Inl e \<Rightarrow> (Inl e, s1)
                | Inr inst \<Rightarrow> (Inr inst, add_to_import_cache s1 key inst)))
         else (Inr cls_inst, s))"

definition resolve_property ::
  "runtime \<Rightarrow> string \<Rightarrow> run_state \<Rightarrow> (exc + pyval) \<times> run_state" where
  "resolve_property rt import_str s =
     (case get_cls rt (part0 (str_rpartition import_str ''.'')) s of
        (Inl e, s1) \<Rightarrow> (Inl e, s1)
      | (Inr cls, s1) \<Rightarrow>
          (case instance_of_cls rt cls s1 of
             (Inl e, s2) \<Rightarrow> (Inl e, s2)
           | (Inr cls_inst, s2) \<Rightarrow>
               (let property = part2 (str_rpartition import_str ''.'');
                    s3 = s2\<lparr>events := events s2 @ [ReadProperty cls_inst property]\<rparr>
                in (case getattr_of rt cls_inst property of
                      Inl e \<Rightarrow> (Inl e, s3)
                    | Inr ret \<Rightarrow> (Inr ret, add_to_import_cache s3 import_str ret)))))"

definition get_property :: "runtime \<Rightarrow> string \<Rightarrow> run_state \<Rightarrow> (exc + pyval) \<times> run_state" where
  "get_property rt import_str s =
     (let ret = load_from_import_cache s import_str
      in if truthy ret then (Inr ret, s) else resolve_property rt import_str s)"

text \<open>
  \<^verbatim>\<open>get_attribute(self, import_str)\<close>: an \<^verbatim>\<open>AttributeError\<close> is turned into an
  \<^verbatim>\<open>ImportError\<close>, any other exception is re-raised; the import cache is not used.
\<close>

definition get_attribute :: "runtime \<Rightarrow> string \<Rightarrow> run_state \<Rightarrow> (exc + pyval) \<times> run_state" where
  "get_attribute rt import_str s =
     (let module = part0 (str_rpartition import_str ''.'');
          attr = part2 (str_rpartition import_str ''.'');
          s1 = s\<lparr>events := events s @ [ImportModule module]\<rparr>
      in (case (case import_module rt module of
                  Inl e \<Rightarrow> Inl e
                | Inr m \<Rightarrow>
                    (case dict_get m attr of None \<Rightarrow> Inl AttributeError | Some ret \<Rightarrow> Inr ret)) of
            Inl exc \<Rightarrow> (if exc = AttributeError then (Inl ImportError, s1) else (Inl exc, s1))
          | Inr ret \<Rightarrow> (Inr ret, s1)))"

text \<open>\<^verbatim>\<open>get_import(self, import_str)\<close>: the property first, the module attribute when
  that raised.\<close>

definition get_import :: "runtime \<Rightarrow> string \<Rightarrow> run_state \<Rightarrow> (exc + pyval) \<times> run_state" where
  "get_import rt import_str s =
     (case get_property rt import_str s of
        (Inr ret, s1) \<Rightarrow> (Inr ret, s1)
      | (Inl e, s1) \<Rightarrow> get_attribute rt import_str s1)"

text \<open>
  A small runtime for the examples: the module \<^verbatim>\<open>plugins.storage\<close> holds the class
  \<^verbatim>\<open>CephChecks\<close> and the attribute \<^verbatim>\<open>ENABLED\<close>, which is \<^verbatim>\<open>False\<close>; the class can be
  instantiated, and its instances have the properties \<^verbatim>\<open>release\<close> (a string) and
  \<^verbatim>\<open>has_errors\<close> (\<^verbatim>\<open>False\<close>).
\<close>

definition demo_runtime :: runtime where
  "demo_runtime =
     \<lparr>import_module = (\<lambda>m. if m = ''plugins.storage''
                             then Inr [(''CephChecks'', VClass ''plugins.storage.CephChecks''),
                                       (''ENABLED'', VBool False)]
                             else Inl ImportError),
      instantiate = (\<lambda>c i. case c of VClass n \<Rightarrow> Inr (VObj n i) | _ \<Rightarrow> Inl TypeError),
      getattr_of = (\<lambda>obj p. case obj of
                      VObj n i \<Rightarrow>
                        if n = ''plugins.storage.CephChecks'' \<and> p = ''release''
                          then Inr (VStr ''quincy'')
                        else if n = ''plugins.storage.CephChecks'' \<and> p = ''has_errors''
                          then Inr (VBool False)
                        else Inl AttributeError
                    | _ \<Rightarrow> Inl AttributeError),
      format_of = (\<lambda>c. case c of VClass n \<Rightarrow> ''<class '' @ [CHR 0x27] @ n @ [CHR 0x27] @ ''>''
                    | _ \<Rightarrow> ''?'')\<rparr>"

definition demo_state :: run_state where
  "demo_state = \<lparr>run_context = Some \<lparr>import_cache = None\<rparr>, next_id = 0, events = []\<rparr>"

section \<open>LogicalCollectionHandler\<close>

definition VALID_GROUP_KEYS :: "string list" where
  "VALID_GROUP_KEYS = [''and'', ''or'', ''nand'', ''nor'', ''xor'', ''not'']"

text \<open>
  The handler's own methods and what the tree gives it. \<open>run_single\<close> is the abstract
  method, returning the list that \<^verbatim>\<open>run_level\<close> extends its results with;
  \<open>get_item_result_callback\<close> is the optional method, whose default raises
  \<^verbatim>\<open>NotImplementedError\<close>; \<open>call_entry\<close> is \<^verbatim>\<open>entry()\<close>. A logical group has its
  \<^verbatim>\<open>_override_name\<close> and its \<^verbatim>\<open>members\<close>, each of which iterates over entries. An item of
  a level gives a group (or nothing) for an operator name, \<^verbatim>\<open>getattr(item, op)\<close>, and
  iterates over its sub-items, each with its \<^verbatim>\<open>_override_name\<close>.
\<close>

record ('e, 's) handler =
  run_single :: "string \<times> 's \<Rightarrow> exc + pyval list"
  get_item_result_callback :: "'e \<Rightarrow> exc + pyval"
  call_entry :: "'e \<Rightarrow> exc + pyval"

record 'e op_group =
  override_name :: string
  members :: "'e list list"

record ('e, 's) item =
  op_groups :: "string \<Rightarrow> 'e op_group option"
  subitems :: "(string \<times> 's) list"

text \<open>\<^verbatim>\<open>group_results(self, logical_op_group)\<close>: the entries of all members in order; the
  first exception that is not the callback's \<^verbatim>\<open>NotImplementedError\<close> ends the loop.\<close>

definition entry_result :: "('e, 's) handler \<Rightarrow> 'e \<Rightarrow> exc + pyval" where
  "entry_result h entry =
     (case get_item_result_callback h entry of
        Inl e \<Rightarrow> if e = NotImplementedError then call_entry h entry else Inl e
      | Inr v \<Rightarrow> Inr v)"

fun entries_results :: "('e, 's) handler \<Rightarrow> 'e list \<Rightarrow> exc + pyval list" where
  "entries_results h [] = Inr []"
| "entries_results h (entry # es) =
     (case entry_result h entry of
        Inl e \<Rightarrow> Inl e
      | Inr v \<Rightarrow> (case entries_results h es of Inl e \<Rightarrow> Inl e | Inr vs \<Rightarrow> Inr (v # vs)))"

definition group_results :: "('e, 's) handler \<Rightarrow> 'e op_group \<Rightarrow> exc + pyval list" where
  "group_results h logical_op_group = entries_results h (concat (members logical_op_group))"

text \<open>Python's \<^verbatim>\<open>all\<close> and \<^verbatim>\<open>any\<close>.\<close>

definition py_all :: "pyval list \<Rightarrow> bool" where
  "py_all rs = list_all truthy rs"

definition py_any :: "pyval list \<Rightarrow> bool" where
  "py_any rs = list_ex truthy rs"

text \<open>\<^verbatim>\<open>run_logical_op_group(self, logical_op_group)\<close>.\<close>

definition run_logical_op_group :: "('e, 's) handler \<Rightarrow> 'e op_group \<Rightarrow> exc + bool" where
  "run_logical_op_group h g =
     (if override_name g = ''and'' then
        (case group_results h g of Inl e \<Rightarrow> Inl e | Inr results \<Rightarrow> Inr (py_all results))
      else if override_name g = ''or'' then
        (case group_results h g of Inl e \<Rightarrow> Inl e | Inr results \<Rightarrow> Inr (py_any results))
      else if override_name g \<in> set [''nand'', ''not''] then
        (case group_results h g of Inl e \<Rightarrow> Inl e | Inr results \<Rightarrow> Inr (\<not> py_all results))
      else if override_name g = ''nor'' then
        (case group_results h g of Inl e \<Rightarrow> Inl e | Inr results \<Rightarrow> Inr (\<not> py_any results))
      else Inl (UnknownLogicalOperator (override_name g)))"

text \<open>\<^verbatim>\<open>run_op_groups(self, item)\<close>: the loop over the operator names, and the method.\<close>

fun run_ops :: "('e, 's) handler \<Rightarrow> ('e, 's) item \<Rightarrow> string list \<Rightarrow> exc + pyval list" where
  "run_ops h it [] = Inr []"
| "run_ops h it (op # ops) =
     (case op_groups it op of
        None \<Rightarrow> run_ops h it ops
      | Some op_group \<Rightarrow>
          (case run_logical_op_group h op_group of
             Inl e \<Rightarrow> Inl e
           | Inr result \<Rightarrow>
               (case run_ops h it ops of
                  Inl e \<Rightarrow> Inl e
                | Inr rest \<Rightarrow> Inr (VBool result # rest))))"

definition run_op_groups :: "('e, 's) handler \<Rightarrow> ('e, 's) item \<Rightarrow> exc + pyval list" where
  "run_op_groups h it = run_ops h it VALID_GROUP_KEYS"

text \<open>\<^verbatim>\<open>run_level(self, level)\<close>: for each item its groups, then each sub-item whose name
  is not a group key as a single.\<close>

fun run_subitems :: "('e, 's) handler \<Rightarrow> (string \<times> 's) list \<Rightarrow> exc + pyval list" where
  "run_subitems h [] = Inr []"
| "run_subitems h (subitem # rest) =
     (if fst subitem \<notin> set VALID_GROUP_KEYS then
        (case run_single h subitem of
           Inl e \<Rightarrow> Inl e
         | Inr rs \<Rightarrow> (case run_subitems h rest of Inl e \<Rightarrow> Inl e | Inr others \<Rightarrow> Inr (rs @ others)))
      else run_subitems h rest)"

fun run_level :: "('e, 's) handler \<Rightarrow> ('e, 's) item list \<Rightarrow> exc + pyval list" where
  "run_level h [] = Inr []"
| "run_level h (it # level) =
     (case run_op_groups h it of
        Inl e \<Rightarrow> Inl e
      | Inr gs \<Rightarrow>
          (case run_subitems h (subitems it) of
             Inl e \<Rightarrow> Inl e
           | Inr ss \<Rightarrow>
               (case run_level h level of Inl e \<Rightarrow> Inl e | Inr rest \<Rightarrow> Inr (gs @ ss @ rest))))"

text \<open>\<^verbatim>\<open>run_collection(self)\<close>, with the level that the handler iterates over.\<close>

definition run_collection :: "('e, 's) handler \<Rightarrow> ('e, 's) item list \<Rightarrow> exc + bool" where
  "run_collection h level =
     (case run_level h level of Inl e \<Rightarrow> Inl e | Inr all_results \<Rightarrow> Inr (py_all all_results))"

section \<open>Properties of dicts and of the property cache\<close>

lemma dict_get_set: "dict_get (dict_set d k v) k' = (if k' = k then Some v else dict_get d k')"
  by (simp add: dict_get_def dict_set_def update_conv')

lemma dict_has_get: "dict_has d k \<longleftrightarrow> dict_get d k \<noteq> None"
  by (simp add: dict_has_def dict_get_def map_of_eq_None_iff)

lemma map_of_dict_update: "map_of (dict_update d other) = map_of d ++ map_of (rev other)"
proof (induction other arbitrary: d)
  case Nil
  then show ?case by (simp add: dict_update_def)
next
  case (Cons p ps)
  obtain a b where p: "p = (a, b)" by (cases p)
  have "dict_update d (p # ps) = dict_update (dict_set d a b) ps"
    by (simp add: dict_update_def p)
  then have "map_of (dict_update d (p # ps)) = (map_of d)(a \<mapsto> b) ++ map_of (rev ps)"
    using Cons.IH [of "dict_set d a b"] by (simp only: dict_set_def update_conv')
  also have "\<dots> = map_of d ++ map_of (rev (p # ps))"
    by (simp add: p)
  finally show ?case .
qed

lemma map_of_rev_distinct: "distinct (map fst xs) \<Longrightarrow> map_of (rev xs) = map_of xs"
proof (induction xs)
  case Nil
  then show ?case by simp
next
  case (Cons p xs)
  obtain a b where p: "p = (a, b)" by (cases p)
  from Cons.prems have notin: "map_of xs a = None"
    by (simp add: p map_of_eq_None_iff)
  have "map_of (rev (p # xs)) = [a \<mapsto> b] ++ map_of xs"
    using Cons by (simp add: p)
  also have "\<dots> = (map_of xs)(a \<mapsto> b)"
    using notin by (auto simp: map_add_def fun_eq_iff split: option.splits)
  finally show ?case by (simp add: p)
qed

lemma dict_get_update:
  "distinct (map fst other) \<Longrightarrow>
   dict_get (dict_update d other) k =
     (case dict_get other k of Some v \<Rightarrow> Some v | None \<Rightarrow> dict_get d k)"
  by (simp add: dict_get_def map_of_dict_update map_of_rev_distinct map_add_def
      split: option.splits)

lemma update_absent: "k \<notin> fst ` set d \<Longrightarrow> AList.update k v d = d @ [(k, v)]"
  by (induction d) auto

lemma dict_update_append:
  "distinct (map fst (acc @ d)) \<Longrightarrow> dict_update acc d = acc @ d"
proof (induction d arbitrary: acc)
  case Nil
  then show ?case by (simp add: dict_update_def)
next
  case (Cons p ps)
  obtain a b where p: "p = (a, b)" by (cases p)
  from Cons.prems have "a \<notin> fst ` set acc" by (auto simp: p)
  then have step: "dict_set acc a b = acc @ [(a, b)]"
    by (simp add: dict_set_def update_absent)
  have "dict_update acc (p # ps) = dict_update (acc @ [(a, b)]) ps"
    by (simp add: dict_update_def p step)
  also have "\<dots> = (acc @ [(a, b)]) @ ps"
    using Cons.prems by (intro Cons.IH) (simp add: p)
  finally show ?case by (simp add: p)
qed

lemma dict_update_empty: "distinct (map fst d) \<Longrightarrow> dict_update [] d = d"
  using dict_update_append [of "[]" d] by simp

lemma cache_getattr_eq: "cache_getattr c k = dict_get_none (property_cache_data c) k"
  by (simp add: cache_getattr_def dict_has_get dict_get_none_def)

lemma cache_getattr_set_assign:
  "\<not> (truthy (cache_getattr c k) \<and> is_dict (cache_getattr c k) \<and> is_dict v) \<Longrightarrow>
   cache_getattr (cache_set c k v) k = v"
  by (auto simp: cache_getattr_eq cache_set_def Let_def dict_get_none_def dict_get_set)

lemma cache_getattr_set_update:
  "cache_getattr c k = VDict cur \<Longrightarrow> cur \<noteq> [] \<Longrightarrow>
   cache_getattr (cache_set c k (VDict new)) k = VDict (dict_update cur new)"
  by (simp add: cache_getattr_eq cache_set_def Let_def dict_get_none_def dict_get_set)

text \<open>
  C1, as stated, fails: merging \<open>{k: {b: 2}}\<close> into \<open>{k: {a: 1}}\<close> leaves \<open>{b: 2}\<close>
  under \<open>k\<close>, not \<open>{a: 1}\<close> updated with \<open>{b: 2}\<close>.
\<close>

theorem merge_per_key_counterexample:
  "cache_getattr
     (merge \<lparr>cache_class = ''PropertyCache'',
             property_cache_data = [(''k'', VDict [(''a'', VInt 1)])]\<rparr>
            (VCache ''PropertyCache'' [(''k'', VDict [(''b'', VInt 2)])])) ''k''
     = VDict [(''b'', VInt 2)]
   \<and> dict_update [(''a'', VInt 1)] [(''b'', VInt 2)] = [(''a'', VInt 1), (''b'', VInt 2)]
   \<and> cache_getattr
     (merge \<lparr>cache_class = ''PropertyCache'',
             property_cache_data = [(''k'', VDict [(''a'', VInt 1)])]\<rparr>
            (VCache ''PropertyCache'' [(''k'', VDict [(''b'', VInt 2)])])) ''k''
     \<noteq> VDict (dict_update [(''a'', VInt 1)] [(''b'', VInt 2)])"
  by (simp add: cache_getattr_def dict_has_def dict_get_none_def dict_get_def
      dict_update_def dict_set_def)

text \<open>
  C1 (amended): after merging a cache B of the same concrete class into A, every key of B
  holds B's entry in A, whole, also when both entries are maps (the entry of A is replaced,
  its sub-keys are not kept), and every key that B does not have keeps A's entry.
\<close>

theorem merge_replaces_entries:
  assumes "cls = cache_class A" and "distinct (map fst d)"
  shows "cache_getattr (merge A (VCache cls d)) k =
           (if dict_has d k then dict_get_none d k else cache_getattr A k)"
  using assms
  by (auto simp: cache_getattr_eq dict_get_none_def dict_get_update dict_has_get
      split: option.splits)

theorem merge_replaces_entries_witness:
  "''PropertyCache'' =
     cache_class \<lparr>cache_class = ''PropertyCache'',
                  property_cache_data = [(''k'', VDict [(''a'', VInt 1)]), (''j'', VInt 7)]\<rparr>
   \<and> distinct (map fst [(''k'', VDict [(''b'', VInt 2)])])
   \<and> cache_getattr
       (merge \<lparr>cache_class = ''PropertyCache'',
               property_cache_data = [(''k'', VDict [(''a'', VInt 1)]), (''j'', VInt 7)]\<rparr>
              (VCache ''PropertyCache'' [(''k'', VDict [(''b'', VInt 2)])])) ''k''
       = VDict [(''b'', VInt 2)]"
  using merge_replaces_entries [of "''PropertyCache''"
      "\<lparr>cache_class = ''PropertyCache'',
        property_cache_data = [(''k'', VDict [(''a'', VInt 1)]), (''j'', VInt 7)]\<rparr>"
      "[(''k'', VDict [(''b'', VInt 2)])]" "''k''"]
  by (simp add: dict_has_def dict_get_none_def dict_get_def)

lemma cache_attribute_set [simp]:
  "cache_attribute py (cache_set c k v) name = None \<longleftrightarrow> cache_attribute py c name = None"
  by (simp add: cache_attribute_def cache_set_def Let_def split: option.splits)

lemma getattr_cache_key:
  "cache_attribute py c k = None \<Longrightarrow> getattr_cache py c k = cache_getattr c k"
  by (simp add: getattr_cache_def)

lemma getattr_cache_data [simp]:
  "getattr_cache py c ''data'' = VDict (property_cache_data c)"
  by (simp add: getattr_cache_def cache_attribute_def)

lemma dict_get_update_empty:
  "dict_get v2 sub = (case dict_get v2 sub of Some x \<Rightarrow> Some x | None \<Rightarrow> dict_get [] sub)"
  by (simp add: dict_get_def split: option.splits)

lemma cache_set_map_on_map:
  assumes "cache_getattr c k = VDict v1" and "distinct (map fst v2)"
  shows "\<exists>r. cache_getattr (cache_set c k (VDict v2)) k = VDict r
           \<and> (\<forall>sub. dict_get r sub
                  = (case dict_get v2 sub of Some x \<Rightarrow> Some x | None \<Rightarrow> dict_get v1 sub))"
proof (cases "v1 = []")
  case True
  with assms have "cache_getattr (cache_set c k (VDict v2)) k = VDict v2"
    by (simp add: cache_getattr_set_assign)
  moreover have "\<forall>sub. dict_get v2 sub
      = (case dict_get v2 sub of Some x \<Rightarrow> Some x | None \<Rightarrow> dict_get v1 sub)"
    using True by (simp add: dict_get_def split: option.splits)
  ultimately show ?thesis by blast
next
  case False
  with assms have "cache_getattr (cache_set c k (VDict v2)) k = VDict (dict_update v1 v2)"
    by (simp add: cache_getattr_set_update)
  moreover have "\<forall>sub. dict_get (dict_update v1 v2) sub
      = (case dict_get v2 sub of Some x \<Rightarrow> Some x | None \<Rightarrow> dict_get v1 sub)"
    using assms(2) by (simp add: dict_get_update)
  ultimately show ?thesis by blast
qed

text \<open>
  C6, as stated, fails on a cache whose key \<open>k\<close> already holds the map \<open>{z: 0}\<close>: after
  \<open>{a: 1}\<close> and then \<open>{b: 2}\<close> are set, the key holds \<open>{z: 0, a: 1, b: 2}\<close>, not
  \<open>{a: 1}\<close> updated with \<open>{b: 2}\<close>. It also fails for the key \<^verbatim>\<open>data\<close>: after it is set
  to \<open>5\<close>, the read gives the whole data dict, and before it is set, the empty dict.
\<close>

theorem set_then_get_counterexample:
  "cache_attribute demo_python
       \<lparr>cache_class = ''PropertyCache'',
        property_cache_data = [(''k'', VDict [(''z'', VInt 0)])]\<rparr> ''k'' = None
   \<and> getattr_cache demo_python
       (cache_set
          (cache_set \<lparr>cache_class = ''PropertyCache'',
                      property_cache_data = [(''k'', VDict [(''z'', VInt 0)])]\<rparr>
             ''k'' (VDict [(''a'', VInt 1)]))
          ''k'' (VDict [(''b'', VInt 2)])) ''k''
       = VDict [(''z'', VInt 0), (''a'', VInt 1), (''b'', VInt 2)]
   \<and> getattr_cache demo_python
       (cache_set (new_cache ''PropertyCache'') ''data'' (VInt 5)) ''data''
       = VDict [(''data'', VInt 5)]
   \<and> getattr_cache demo_python (new_cache ''PropertyCache'') ''data'' = VDict []"
  by (simp add: demo_python_def cache_attribute_def getattr_cache_def cache_getattr_def
      cache_set_def new_cache_def dict_has_def dict_get_none_def dict_get_def dict_update_def
      dict_set_def)

text \<open>
  C6 (amended), for a key \<open>k\<close> that the normal attribute lookup does not find on the
  cache object: setting \<open>k\<close> to a value that is not a map and reading \<open>k\<close> gives the
  value; reading \<open>k\<close> when it is not in the cache gives \<open>None\<close> (nothing is raised: the
  read is total); when \<open>k\<close> holds the map \<open>v1\<close> and the map \<open>v2\<close> is set, \<open>k\<close> holds a map
  that has, for every sub-key, the value of \<open>v2\<close> where \<open>v2\<close> has the sub-key and the
  value of \<open>v1\<close> otherwise; and setting \<open>v1\<close> and then \<open>v2\<close> gives that same map when \<open>k\<close>
  held no non-empty map before.
\<close>

theorem cache_set_then_get:
  "(cache_attribute py c k = None \<and> \<not> is_dict v \<longrightarrow>
      getattr_cache py (cache_set c k v) k = v)
   \<and> (cache_attribute py c' k' = None \<and> \<not> dict_has (property_cache_data c') k' \<longrightarrow>
      getattr_cache py c' k' = VNone)
   \<and> (cache_attribute py c1 k1 = None \<and> getattr_cache py c1 k1 = VDict v1
       \<and> distinct (map fst v2) \<longrightarrow>
      (\<exists>r. getattr_cache py (cache_set c1 k1 (VDict v2)) k1 = VDict r
         \<and> (\<forall>sub. dict_get r sub
                = (case dict_get v2 sub of Some x \<Rightarrow> Some x | None \<Rightarrow> dict_get v1 sub))))
   \<and> (cache_attribute py c2 k2 = None
       \<and> \<not> (truthy (getattr_cache py c2 k2) \<and> is_dict (getattr_cache py c2 k2))
       \<and> distinct (map fst w2) \<longrightarrow>
      (\<exists>r. getattr_cache py (cache_set (cache_set c2 k2 (VDict w1)) k2 (VDict w2)) k2 = VDict r
         \<and> (\<forall>sub. dict_get r sub
                = (case dict_get w2 sub of Some x \<Rightarrow> Some x | None \<Rightarrow> dict_get w1 sub))))"
proof (intro conjI impI)
  assume "cache_attribute py c k = None \<and> \<not> is_dict v"
  then show "getattr_cache py (cache_set c k v) k = v"
    by (simp add: getattr_cache_key cache_getattr_set_assign)
next
  assume "cache_attribute py c' k' = None \<and> \<not> dict_has (property_cache_data c') k'"
  then show "getattr_cache py c' k' = VNone"
    by (simp add: getattr_cache_key cache_getattr_def)
next
  assume h: "cache_attribute py c1 k1 = None \<and> getattr_cache py c1 k1 = VDict v1
       \<and> distinct (map fst v2)"
  then have "cache_getattr c1 k1 = VDict v1"
    using getattr_cache_key [of py c1 k1] by simp
  with h show "\<exists>r. getattr_cache py (cache_set c1 k1 (VDict v2)) k1 = VDict r
         \<and> (\<forall>sub. dict_get r sub
                = (case dict_get v2 sub of Some x \<Rightarrow> Some x | None \<Rightarrow> dict_get v1 sub))"
    using cache_set_map_on_map [of c1 k1 v1 v2] by (simp add: getattr_cache_key)
next
  assume h: "cache_attribute py c2 k2 = None
       \<and> \<not> (truthy (getattr_cache py c2 k2) \<and> is_dict (getattr_cache py c2 k2))
       \<and> distinct (map fst w2)"
  then have "\<not> (truthy (cache_getattr c2 k2) \<and> is_dict (cache_getattr c2 k2))"
    using getattr_cache_key [of py c2 k2] by simp
  then have "cache_getattr (cache_set c2 k2 (VDict w1)) k2 = VDict w1"
    by (simp add: cache_getattr_set_assign)
  with h show "\<exists>r. getattr_cache py (cache_set (cache_set c2 k2 (VDict w1)) k2 (VDict w2)) k2
           = VDict r
         \<and> (\<forall>sub. dict_get r sub
                = (case dict_get w2 sub of Some x \<Rightarrow> Some x | None \<Rightarrow> dict_get w1 sub))"
    using cache_set_map_on_map [of "cache_set c2 k2 (VDict w1)" k2 w1 w2]
    by (simp add: getattr_cache_key)
qed

text \<open>
  A key set to \<open>5\<close>, an unset key, and \<open>{a: 1, c: 5}\<close> followed by \<open>{a: 3, b: 2}\<close>,
  which gives \<open>{a: 3, c: 5, b: 2}\<close>.
\<close>

theorem cache_set_then_get_witness:
  "cache_attribute demo_python (new_cache ''PropertyCache'') ''k'' = None
   \<and> \<not> is_dict (VInt 5)
   \<and> getattr_cache demo_python (cache_set (new_cache ''PropertyCache'') ''k'' (VInt 5)) ''k''
       = VInt 5
   \<and> \<not> dict_has (property_cache_data (new_cache ''PropertyCache'')) ''k''
   \<and> getattr_cache demo_python (new_cache ''PropertyCache'') ''k'' = VNone
   \<and> getattr_cache demo_python
         \<lparr>cache_class = ''PropertyCache'',
          property_cache_data = [(''k'', VDict [(''a'', VInt 1), (''c'', VInt 5)])]\<rparr> ''k''
       = VDict [(''a'', VInt 1), (''c'', VInt 5)]
   \<and> distinct (map fst [(''a'', VInt 3), (''b'', VInt 2)])
   \<and> (\<exists>r. getattr_cache demo_python
         (cache_set \<lparr>cache_class = ''PropertyCache'',
                     property_cache_data = [(''k'', VDict [(''a'', VInt 1), (''c'', VInt 5)])]\<rparr>
            ''k'' (VDict [(''a'', VInt 3), (''b'', VInt 2)])) ''k'' = VDict r
        \<and> (\<forall>sub. dict_get r sub
              = (case dict_get [(''a'', VInt 3), (''b'', VInt 2)] sub of
                   Some x \<Rightarrow> Some x
                 | None \<Rightarrow> dict_get [(''a'', VInt 1), (''c'', VInt 5)] sub)))
   \<and> getattr_cache demo_python
         (cache_set \<lparr>cache_class = ''PropertyCache'',
                     property_cache_data = [(''k'', VDict [(''a'', VInt 1), (''c'', VInt 5)])]\<rparr>
            ''k'' (VDict [(''a'', VInt 3), (''b'', VInt 2)])) ''k''
       = VDict [(''a'', VInt 3), (''c'', VInt 5), (''b'', VInt 2)]
   \<and> \<not> (truthy (getattr_cache demo_python (new_cache ''PropertyCache'') ''k'')
          \<and> is_dict (getattr_cache demo_python (new_cache ''PropertyCache'') ''k''))
   \<and> (\<exists>r. getattr_cache demo_python
         (cache_set (cache_set (new_cache ''PropertyCache'') ''k''
                       (VDict [(''a'', VInt 1), (''c'', VInt 5)]))
            ''k'' (VDict [(''a'', VInt 3), (''b'', VInt 2)])) ''k'' = VDict r
        \<and> (\<forall>sub. dict_get r sub
              = (case dict_get [(''a'', VInt 3), (''b'', VInt 2)] sub of
                   Some x \<Rightarrow> Some x
                 | None \<Rightarrow> dict_get [(''a'', VInt 1), (''c'', VInt 5)] sub)))
   \<and> getattr_cache demo_python
         (cache_set (cache_set (new_cache ''PropertyCache'') ''k''
                       (VDict [(''a'', VInt 1), (''c'', VInt 5)]))
            ''k'' (VDict [(''a'', VInt 3), (''b'', VInt 2)])) ''k''
       = VDict [(''a'', VInt 3), (''c'', VInt 5), (''b'', VInt 2)]"
proof -
  note T = cache_set_then_get [where py = demo_python
      and c = "new_cache ''PropertyCache''" and k = "''k''" and v = "VInt 5"
      and c' = "new_cache ''PropertyCache''" and k' = "''k''"
      and ?c1.0 = "\<lparr>cache_class = ''PropertyCache'',
        property_cache_data = [(''k'', VDict [(''a'', VInt 1), (''c'', VInt 5)])]\<rparr>"
      and ?k1.0 = "''k''" and ?v1.0 = "[(''a'', VInt 1), (''c'', VInt 5)]"
      and ?v2.0 = "[(''a'', VInt 3), (''b'', VInt 2)]"
      and ?c2.0 = "new_cache ''PropertyCache''" and ?k2.0 = "''k''"
      and ?w1.0 = "[(''a'', VInt 1), (''c'', VInt 5)]"
      and ?w2.0 = "[(''a'', VInt 3), (''b'', VInt 2)]"]
  have key: "cache_attribute demo_python (new_cache ''PropertyCache'') ''k'' = None"
    "cache_attribute demo_python \<lparr>cache_class = ''PropertyCache'',
        property_cache_data = [(''k'', VDict [(''a'', VInt 1), (''c'', VInt 5)])]\<rparr> ''k'' = None"
    by (simp_all add: demo_python_def cache_attribute_def new_cache_def)
  have nd: "\<not> is_dict (VInt 5)" "distinct (map fst [(''a'', VInt 3), (''b'', VInt 2)])"
    by simp_all
  have absent: "\<not> dict_has (property_cache_data (new_cache ''PropertyCache'')) ''k''"
    by (simp add: new_cache_def dict_has_def)
  have r2: "getattr_cache demo_python (new_cache ''PropertyCache'') ''k'' = VNone"
    using T [THEN conjunct2, THEN conjunct1, THEN mp, OF conjI [OF key(1) absent]] .
  have unset: "\<not> (truthy (getattr_cache demo_python (new_cache ''PropertyCache'') ''k'')
          \<and> is_dict (getattr_cache demo_python (new_cache ''PropertyCache'') ''k''))"
    by (simp add: r2)
  have held: "getattr_cache demo_python
         \<lparr>cache_class = ''PropertyCache'',
          property_cache_data = [(''k'', VDict [(''a'', VInt 1), (''c'', VInt 5)])]\<rparr> ''k''
       = VDict [(''a'', VInt 1), (''c'', VInt 5)]"
    using key(2)
    by (simp add: getattr_cache_def cache_getattr_def dict_has_def dict_get_none_def dict_get_def)
  have r1: "getattr_cache demo_python
      (cache_set (new_cache ''PropertyCache'') ''k'' (VInt 5)) ''k'' = VInt 5"
    using T [THEN conjunct1] key(1) nd(1) by blast
  have r3: "\<exists>r. getattr_cache demo_python
         (cache_set \<lparr>cache_class = ''PropertyCache'',
                     property_cache_data = [(''k'', VDict [(''a'', VInt 1), (''c'', VInt 5)])]\<rparr>
            ''k'' (VDict [(''a'', VInt 3), (''b'', VInt 2)])) ''k'' = VDict r
        \<and> (\<forall>sub. dict_get r sub
              = (case dict_get [(''a'', VInt 3), (''b'', VInt 2)] sub of
                   Some x \<Rightarrow> Some x
                 | None \<Rightarrow> dict_get [(''a'', VInt 1), (''c'', VInt 5)] sub))"
    using T [THEN conjunct2, THEN conjunct2, THEN conjunct1, THEN mp,
        OF conjI [OF key(2) conjI [OF held nd(2)]]] .
  have r4: "\<exists>r. getattr_cache demo_python
         (cache_set (cache_set (new_cache ''PropertyCache'') ''k''
                       (VDict [(''a'', VInt 1), (''c'', VInt 5)]))
            ''k'' (VDict [(''a'', VInt 3), (''b'', VInt 2)])) ''k'' = VDict r
        \<and> (\<forall>sub. dict_get r sub
              = (case dict_get [(''a'', VInt 3), (''b'', VInt 2)] sub of
                   Some x \<Rightarrow> Some x
                 | None \<Rightarrow> dict_get [(''a'', VInt 1), (''c'', VInt 5)] sub))"
    using T [THEN conjunct2, THEN conjunct2, THEN conjunct2, THEN mp,
        OF conjI [OF key(1) conjI [OF unset nd(2)]]] .
  have e3: "getattr_cache demo_python
         (cache_set \<lparr>cache_class = ''PropertyCache'',
                     property_cache_data = [(''k'', VDict [(''a'', VInt 1), (''c'', VInt 5)])]\<rparr>
            ''k'' (VDict [(''a'', VInt 3), (''b'', VInt 2)])) ''k''
       = VDict [(''a'', VInt 3), (''c'', VInt 5), (''b'', VInt 2)]"
    by (simp add: demo_python_def cache_attribute_def getattr_cache_def cache_getattr_def
      cache_set_def dict_has_def dict_get_none_def dict_get_def dict_update_def dict_set_def)
  have e4: "getattr_cache demo_python
         (cache_set (cache_set (new_cache ''PropertyCache'') ''k''
                       (VDict [(''a'', VInt 1), (''c'', VInt 5)]))
            ''k'' (VDict [(''a'', VInt 3), (''b'', VInt 2)])) ''k''
       = VDict [(''a'', VInt 3), (''c'', VInt 5), (''b'', VInt 2)]"
    by (simp add: demo_python_def cache_attribute_def getattr_cache_def cache_getattr_def
      cache_set_def new_cache_def dict_has_def dict_get_none_def dict_get_def dict_update_def
      dict_set_def)
  show ?thesis
    by (intro conjI key(1) nd r1 absent r2 unset held r3 e3 r4 e4)
qed

section \<open>Properties of the reference resolver\<close>

lemma startswith_at_checks: "startswith s ''@checks.'' \<Longrightarrow> startswith s ''@''"
  by (cases s) (auto simp: startswith_def)

lemma startswith_at_not_dollar: "startswith s ''@'' \<Longrightarrow> \<not> startswith s ''$''"
  by (cases s) (auto simp: startswith_def)

text \<open>
  C4, as stated, fails at \<open>@foo\<close>: the string starts with neither \<open>$\<close> nor
  \<open>@checks.\<close>, \<open>is_valid_cache_ref\<close> accepts it, and the constructor raises
  "unknown ref type", not the invalid-reference error.
\<close>

theorem valid_ref_prefix_counterexample:
  "is_valid_cache_ref (VStr ''@foo'')
   \<and> \<not> startswith ''@foo'' ''$'' \<and> \<not> startswith ''@foo'' ''@checks.''
   \<and> resolver_init (VStr ''@foo'') None (Some []) = Inl UnknownRefType
   \<and> resolver_init (VStr ''@foo'') None (Some []) \<noteq> Inl (InvalidCacheRef (VStr ''@foo''))"
  by (simp add: startswith_def resolver_init_def reftype_def)

text \<open>
  C4 (amended): \<open>is_valid_cache_ref\<close> accepts a string iff it starts with \<open>$\<close> or
  with \<open>@\<close>; the constructor succeeds iff the string starts with \<open>$\<close>, or starts with
  \<open>@checks.\<close> and a checks collection is given; a string that starts with neither \<open>$\<close>
  nor \<open>@\<close> raises the invalid-reference error, one that starts with \<open>@\<close> but not with
  \<open>@checks.\<close> raises "unknown ref type", and a cache-form string without a checks
  collection raises the checks-not-provided error.
\<close>

theorem resolver_init_cases:
  "(is_valid_cache_ref (VStr s) \<longleftrightarrow> startswith s ''$'' \<or> startswith s ''@'')
   \<and> ((\<exists>r. resolver_init (VStr s) vs cs = Inr r) \<longleftrightarrow>
        startswith s ''$'' \<or> (startswith s ''@checks.'' \<and> cs \<noteq> None))
   \<and> (\<not> startswith sa ''$'' \<and> \<not> startswith sa ''@'' \<longrightarrow>
        resolver_init (VStr sa) vs cs = Inl (InvalidCacheRef (VStr sa)))
   \<and> (startswith sb ''@'' \<and> \<not> startswith sb ''@checks.'' \<longrightarrow>
        resolver_init (VStr sb) vs cs = Inl UnknownRefType)
   \<and> (startswith sc ''@checks.'' \<longrightarrow>
        resolver_init (VStr sc) vs None = Inl (ChecksNotProvided sc))"
proof (intro conjI impI)
  show "is_valid_cache_ref (VStr s) \<longleftrightarrow> startswith s ''$'' \<or> startswith s ''@''"
    by auto
next
  show "(\<exists>r. resolver_init (VStr s) vs cs = Inr r) \<longleftrightarrow>
        startswith s ''$'' \<or> (startswith s ''@checks.'' \<and> cs \<noteq> None)"
    using startswith_at_checks [of s] startswith_at_not_dollar [of s]
    by (auto simp: resolver_init_def reftype_def)
next
  assume "\<not> startswith sa ''$'' \<and> \<not> startswith sa ''@''"
  then show "resolver_init (VStr sa) vs cs = Inl (InvalidCacheRef (VStr sa))"
    by (simp add: resolver_init_def)
next
  assume "startswith sb ''@'' \<and> \<not> startswith sb ''@checks.''"
  then show "resolver_init (VStr sb) vs cs = Inl UnknownRefType"
    using startswith_at_not_dollar [of sb] by (simp add: resolver_init_def reftype_def)
next
  assume "startswith sc ''@checks.''"
  then show "resolver_init (VStr sc) vs None = Inl (ChecksNotProvided sc)"
    using startswith_at_checks [of sc] startswith_at_not_dollar [of sc]
    by (simp add: resolver_init_def reftype_def)
qed

theorem resolver_init_cases_witness:
  "is_valid_cache_ref (VStr ''$hostname:str'')
   \<and> (\<exists>r. resolver_init (VStr ''$hostname:str'') None None = Inr r)
   \<and> \<not> startswith ''hostname'' ''$'' \<and> \<not> startswith ''hostname'' ''@''
   \<and> resolver_init (VStr ''hostname'') None None = Inl (InvalidCacheRef (VStr ''hostname''))
   \<and> startswith ''@foo.bar'' ''@'' \<and> \<not> startswith ''@foo.bar'' ''@checks.''
   \<and> resolver_init (VStr ''@foo.bar'') None None = Inl UnknownRefType
   \<and> startswith ''@checks.svc_check.is_running.result'' ''@checks.''
   \<and> resolver_init (VStr ''@checks.svc_check.is_running.result'') None None
       = Inl (ChecksNotProvided ''@checks.svc_check.is_running.result'')"
  using resolver_init_cases [where s = "''$hostname:str''" and vs = None and cs = None
      and sa = "''hostname''" and sb = "''@foo.bar''"
      and sc = "''@checks.svc_check.is_running.result''"]
  by (simp add: startswith_def)

lemma resolve_value_checks:
  assumes "check_name (refstr r) = Inr cn"
    and "property_name (refstr r) = Inr (Some pn)"
    and "property_cache_key (refstr r) = Inr key"
    and "checks r = Some cs"
    and "dict_get cs cn = Some cc"
  shows "resolve_value py r = py_getattr py (getattr_cache py cc pn) key"
proof -
  from assms(1) have "reftype (refstr r) = Inr ''checks''"
    by (auto simp: check_name_def split: sum.splits if_splits)
  with assms show ?thesis
    by (simp add: resolve_value_def)
qed

lemma py_getattr_cache_key:
  "cache_attribute py \<lparr>cache_class = cls, property_cache_data = d\<rparr> key = None \<Longrightarrow>
   py_getattr py (VCache cls d) key
     = Inr (cache_getattr \<lparr>cache_class = cls, property_cache_data = d\<rparr> key)"
  by (simp add: getattr_cache_def)

lemma resolve_of_value:
  "resolve_value py r = Inr v \<Longrightarrow>
   resolve py r = (if v = VNone then Inr VNone else apply_renderer_function py r v)"
  by (simp add: resolve_def)

text \<open>
  C8, as stated, fails: for a check whose cache never set anything, the property's cache
  is \<open>None\<close> and reading the key from it raises \<^verbatim>\<open>AttributeError\<close>; and for the key
  \<^verbatim>\<open>data\<close>, never set in the property's cache, the reference resolves to the empty data
  dict, not to \<open>None\<close>.
\<close>

theorem resolve_cache_ref_counterexample:
  "resolve demo_python
      \<lparr>refstr = ''@checks.svc_check.is_running.result'', vars = None,
       checks = Some [(''svc_check'', new_cache ''PropertyCache'')]\<rparr>
     = Inl AttributeError
   \<and> resolve demo_python
      \<lparr>refstr = ''@checks.svc_check.is_running.data'', vars = None,
       checks = Some [(''svc_check'',
         \<lparr>cache_class = ''PropertyCache'',
          property_cache_data = [(''is_running'', VCache ''PropertyCache'' [])]\<rparr>)]\<rparr>
     = Inr (VDict [])"
  by code_simp

text \<open>
  C8 (amended): when the value that \<open>resolve\<close> reads is \<open>None\<close>, \<open>resolve\<close> returns
  \<open>None\<close> and does not apply the renderer function, which it applies to every other
  value; a cache-form reference resolves to \<open>None\<close> when the check's cache gives a
  \<^verbatim>\<open>PropertyCache\<close> for the property, the key is not found on it by the normal attribute
  lookup and the key was never set in it.
\<close>

theorem resolve_absent:
  "(resolve_value py r = Inr VNone \<longrightarrow> resolve py r = Inr VNone)
   \<and> (resolve_value py r' = Inr v \<and> v \<noteq> VNone \<longrightarrow>
        resolve py r' = apply_renderer_function py r' v)
   \<and> (check_name (refstr q) = Inr cn
       \<and> property_name (refstr q) = Inr (Some pn)
       \<and> property_cache_key (refstr q) = Inr key
       \<and> checks q = Some cs
       \<and> dict_get cs cn = Some cc
       \<and> getattr_cache py cc pn = VCache cls d
       \<and> cache_attribute py \<lparr>cache_class = cls, property_cache_data = d\<rparr> key = None
       \<and> \<not> dict_has d key \<longrightarrow>
       resolve py q = Inr VNone)"
proof (intro conjI impI)
  assume "resolve_value py r = Inr VNone"
  then show "resolve py r = Inr VNone"
    by (simp add: resolve_def)
next
  assume "resolve_value py r' = Inr v \<and> v \<noteq> VNone"
  then show "resolve py r' = apply_renderer_function py r' v"
    by (simp add: resolve_def)
next
  assume h: "check_name (refstr q) = Inr cn
       \<and> property_name (refstr q) = Inr (Some pn)
       \<and> property_cache_key (refstr q) = Inr key
       \<and> checks q = Some cs
       \<and> dict_get cs cn = Some cc
       \<and> getattr_cache py cc pn = VCache cls d
       \<and> cache_attribute py \<lparr>cache_class = cls, property_cache_data = d\<rparr> key = None
       \<and> \<not> dict_has d key"
  then have "resolve_value py q = py_getattr py (getattr_cache py cc pn) key"
    by (intro resolve_value_checks) auto
  with h have "resolve_value py q = Inr VNone"
    by (simp add: getattr_cache_def cache_getattr_def)
  then show "resolve py q = Inr VNone"
    by (simp add: resolve_def)
qed

text \<open>
  C10, as stated, fails: the public \<^verbatim>\<open>data\<close> property of the cache holds the key after
  it was set to \<open>None\<close> and not before, and the reference \<^verbatim>\<open>...data:len\<close> resolves to 1
  in the first case and to 0 in the second.
\<close>

theorem none_entry_counterexample:
  "getattr_cache demo_python (cache_set (new_cache ''PropertyCache'') ''result'' VNone) ''data''
     = VDict [(''result'', VNone)]
   \<and> getattr_cache demo_python (new_cache ''PropertyCache'') ''data'' = VDict []
   \<and> resolve demo_python
      \<lparr>refstr = ''@checks.svc_check.is_running.data:len'', vars = None,
       checks = Some [(''svc_check'',
         \<lparr>cache_class = ''PropertyCache'',
          property_cache_data =
            [(''is_running'', VCache ''PropertyCache'' [(''result'', VNone)])]\<rparr>)]\<rparr>
     = Inr (VInt 1)
   \<and> resolve demo_python
      \<lparr>refstr = ''@checks.svc_check.is_running.data:len'', vars = None,
       checks = Some [(''svc_check'',
         \<lparr>cache_class = ''PropertyCache'',
          property_cache_data = [(''is_running'', VCache ''PropertyCache'' [])]\<rparr>)]\<rparr>
     = Inr (VInt 0)"
  by code_simp

text \<open>
  C10 (amended), for a key that the normal attribute lookup does not find on the cache
  object: after the key is set to \<open>None\<close> the attribute-style read of the key gives
  \<open>None\<close>, as it does for a key that is not in the cache; a cache-form reference to the
  key resolves to \<open>None\<close> both when the property cache has the key set to \<open>None\<close> and
  when it never set it; the data of the cache, read through \<^verbatim>\<open>data\<close>, tells the two
  apart: it holds the key with the value \<open>None\<close> after the set and does not hold a key
  that was never set.
\<close>

theorem none_entry_same_as_unset:
  "(cache_attribute py c k = None \<longrightarrow> getattr_cache py (cache_set c k VNone) k = VNone)
   \<and> (cache_attribute py c' k' = None \<and> \<not> dict_has (property_cache_data c') k' \<longrightarrow>
        getattr_cache py c' k' = VNone)
   \<and> (check_name (refstr q) = Inr cn
       \<and> property_name (refstr q) = Inr (Some pn)
       \<and> property_cache_key (refstr q) = Inr key
       \<and> checks q = Some cs
       \<and> dict_get cs cn = Some cc
       \<and> getattr_cache py cc pn = VCache cls d
       \<and> cache_attribute py \<lparr>cache_class = cls, property_cache_data = d\<rparr> key = None
       \<and> (d = property_cache_data (cache_set pc key VNone) \<or> \<not> dict_has d key) \<longrightarrow>
       resolve py q = Inr VNone)
   \<and> dict_get (the_dict (getattr_cache py (cache_set c0 k0 VNone) ''data'')) k0 = Some VNone
   \<and> (\<not> dict_has (property_cache_data c3) k3 \<longrightarrow>
        dict_get (the_dict (getattr_cache py c3 ''data'')) k3 = None)"
proof (intro conjI impI)
  assume "cache_attribute py c k = None"
  then show "getattr_cache py (cache_set c k VNone) k = VNone"
    by (simp add: getattr_cache_key cache_getattr_set_assign)
next
  assume "cache_attribute py c' k' = None \<and> \<not> dict_has (property_cache_data c') k'"
  then show "getattr_cache py c' k' = VNone"
    by (simp add: getattr_cache_key cache_getattr_def)
next
  assume h: "check_name (refstr q) = Inr cn
       \<and> property_name (refstr q) = Inr (Some pn)
       \<and> property_cache_key (refstr q) = Inr key
       \<and> checks q = Some cs
       \<and> dict_get cs cn = Some cc
       \<and> getattr_cache py cc pn = VCache cls d
       \<and> cache_attribute py \<lparr>cache_class = cls, property_cache_data = d\<rparr> key = None
       \<and> (d = property_cache_data (cache_set pc key VNone) \<or> \<not> dict_has d key)"
  then have rv: "resolve_value py q = py_getattr py (getattr_cache py cc pn) key"
    by (intro resolve_value_checks) auto
  have "cache_getattr (cache_set pc key VNone) key = VNone"
    by (simp add: cache_getattr_set_assign)
  then have "cache_getattr \<lparr>cache_class = cls,
      property_cache_data = property_cache_data (cache_set pc key VNone)\<rparr> key = VNone"
    by (simp add: cache_getattr_def split: if_splits)
  moreover have "\<not> dict_has d key \<Longrightarrow>
      cache_getattr \<lparr>cache_class = cls, property_cache_data = d\<rparr> key = VNone"
    by (simp add: cache_getattr_def)
  ultimately have "cache_getattr \<lparr>cache_class = cls, property_cache_data = d\<rparr> key = VNone"
    using h by blast
  with h rv have "resolve_value py q = Inr VNone"
    by (simp add: getattr_cache_def)
  then show "resolve py q = Inr VNone"
    by (simp add: resolve_def)
next
  show "dict_get (the_dict (getattr_cache py (cache_set c0 k0 VNone) ''data'')) k0 = Some VNone"
    by (simp add: cache_set_def Let_def dict_get_set)
next
  assume "\<not> dict_has (property_cache_data c3) k3"
  then show "dict_get (the_dict (getattr_cache py c3 ''data'')) k3 = None"
    by (simp add: dict_has_get)
qed

text \<open>
  A variable that resolves to \<open>None\<close> with the renderer \<^verbatim>\<open>len\<close>, which would raise on
  \<open>None\<close>; a variable that resolves to a string; a property cache without the key.
\<close>

theorem resolve_absent_witness:
  "resolve_value demo_python
      \<lparr>refstr = ''$hostname:len'', vars = Some (\<lambda>n. Inr VNone), checks = None\<rparr> = Inr VNone
   \<and> resolve demo_python
      \<lparr>refstr = ''$hostname:len'', vars = Some (\<lambda>n. Inr VNone), checks = None\<rparr> = Inr VNone
   \<and> apply_renderer_function demo_python
      \<lparr>refstr = ''$hostname:len'', vars = Some (\<lambda>n. Inr VNone), checks = None\<rparr> VNone
     = Inl TypeError
   \<and> resolve_value demo_python
      \<lparr>refstr = ''$hostname:len'', vars = Some (\<lambda>n. Inr (VStr ''juju-1'')), checks = None\<rparr>
     = Inr (VStr ''juju-1'')
   \<and> VStr ''juju-1'' \<noteq> VNone
   \<and> resolve demo_python
      \<lparr>refstr = ''$hostname:len'', vars = Some (\<lambda>n. Inr (VStr ''juju-1'')), checks = None\<rparr>
     = apply_renderer_function demo_python
        \<lparr>refstr = ''$hostname:len'', vars = Some (\<lambda>n. Inr (VStr ''juju-1'')), checks = None\<rparr>
        (VStr ''juju-1'')
   \<and> apply_renderer_function demo_python
        \<lparr>refstr = ''$hostname:len'', vars = Some (\<lambda>n. Inr (VStr ''juju-1'')), checks = None\<rparr>
        (VStr ''juju-1'')
     = Inr (VInt 6)
   \<and> check_name ''@checks.svc_check.is_running.result:len'' = Inr ''svc_check''
   \<and> property_name ''@checks.svc_check.is_running.result:len'' = Inr (Some ''is_running'')
   \<and> property_cache_key ''@checks.svc_check.is_running.result:len'' = Inr ''result''
   \<and> getattr_cache demo_python
        \<lparr>cache_class = ''PropertyCache'', property_cache_data =
           [(''is_running'', VCache ''PropertyCache'' [(''other'', VInt 1)])]\<rparr> ''is_running''
     = VCache ''PropertyCache'' [(''other'', VInt 1)]
   \<and> cache_attribute demo_python
        \<lparr>cache_class = ''PropertyCache'', property_cache_data = [(''other'', VInt 1)]\<rparr>
        ''result'' = None
   \<and> \<not> dict_has [(''other'', VInt 1)] ''result''
   \<and> resolve demo_python
        \<lparr>refstr = ''@checks.svc_check.is_running.result:len'', vars = None,
         checks = Some [(''svc_check'', \<lparr>cache_class = ''PropertyCache'', property_cache_data =
           [(''is_running'', VCache ''PropertyCache'' [(''other'', VInt 1)])]\<rparr>)]\<rparr>
     = Inr VNone"
proof -
  let ?r = "\<lparr>refstr = ''$hostname:len'', vars = Some (\<lambda>n. Inr VNone), checks = None\<rparr>"
  let ?r' = "\<lparr>refstr = ''$hostname:len'', vars = Some (\<lambda>n. Inr (VStr ''juju-1'')),
    checks = None\<rparr>"
  let ?cc = "\<lparr>cache_class = ''PropertyCache'', property_cache_data =
           [(''is_running'', VCache ''PropertyCache'' [(''other'', VInt 1)])]\<rparr>"
  let ?q = "\<lparr>refstr = ''@checks.svc_check.is_running.result:len'', vars = None,
         checks = Some [(''svc_check'', ?cc)]\<rparr>"
  note T = resolve_absent [where py = demo_python and r = ?r and r' = ?r'
      and v = "VStr ''juju-1''" and q = ?q and cn = "''svc_check''" and pn = "''is_running''"
      and key = "''result''" and cs = "[(''svc_check'', ?cc)]" and cc = ?cc
      and cls = "''PropertyCache''" and d = "[(''other'', VInt 1)]"]
  have v0: "resolve_value demo_python ?r = Inr VNone"
    by (simp add: resolve_value_def reftype_def startswith_def)
  have a0: "apply_renderer_function demo_python ?r VNone = Inl TypeError"
    by code_simp
  have v1: "resolve_value demo_python ?r' = Inr (VStr ''juju-1'')"
    by (simp add: resolve_value_def reftype_def startswith_def)
  have ne: "VStr ''juju-1'' \<noteq> VNone"
    by simp
  have a1: "apply_renderer_function demo_python ?r' (VStr ''juju-1'') = Inr (VInt 6)"
    by code_simp
  have cn: "check_name ''@checks.svc_check.is_running.result:len'' = Inr ''svc_check''"
    by code_simp
  have pn: "property_name ''@checks.svc_check.is_running.result:len''
      = Inr (Some ''is_running'')"
    by code_simp
  have key: "property_cache_key ''@checks.svc_check.is_running.result:len'' = Inr ''result''"
    by code_simp
  have ga: "getattr_cache demo_python ?cc ''is_running''
      = VCache ''PropertyCache'' [(''other'', VInt 1)]"
    by code_simp
  have ca: "cache_attribute demo_python
      \<lparr>cache_class = ''PropertyCache'', property_cache_data = [(''other'', VInt 1)]\<rparr>
      ''result'' = None"
    by code_simp
  have nh: "\<not> dict_has [(''other'', VInt 1)] ''result''"
    by code_simp
  have r0: "resolve demo_python ?r = Inr VNone"
    using T [THEN conjunct1] v0 by (rule mp)
  have r1: "resolve demo_python ?r'
      = apply_renderer_function demo_python ?r' (VStr ''juju-1'')"
    using T [THEN conjunct2, THEN conjunct1] conjI [OF v1 ne] by (rule mp)
  have r2: "resolve demo_python ?q = Inr VNone"
    using T [THEN conjunct2, THEN conjunct2] cn pn key ga ca nh
    by (simp add: dict_get_def)
  show ?thesis
    by (intro conjI v0 r0 a0 v1 ne r1 a1 cn pn key ga ca nh r2)
qed

text \<open>
  The key \<^verbatim>\<open>result\<close> set to \<open>None\<close> and not set.
\<close>

theorem none_entry_same_as_unset_witness:
  "cache_attribute demo_python (new_cache ''PropertyCache'') ''result'' = None
   \<and> getattr_cache demo_python
        (cache_set (new_cache ''PropertyCache'') ''result'' VNone) ''result'' = VNone
   \<and> \<not> dict_has (property_cache_data (new_cache ''PropertyCache'')) ''result''
   \<and> getattr_cache demo_python (new_cache ''PropertyCache'') ''result'' = VNone
   \<and> check_name ''@checks.svc_check.is_running.result'' = Inr ''svc_check''
   \<and> property_name ''@checks.svc_check.is_running.result'' = Inr (Some ''is_running'')
   \<and> property_cache_key ''@checks.svc_check.is_running.result'' = Inr ''result''
   \<and> getattr_cache demo_python
        \<lparr>cache_class = ''PropertyCache'', property_cache_data =
           [(''is_running'', VCache ''PropertyCache'' [(''result'', VNone)])]\<rparr> ''is_running''
     = VCache ''PropertyCache'' [(''result'', VNone)]
   \<and> cache_attribute demo_python
        \<lparr>cache_class = ''PropertyCache'', property_cache_data = [(''result'', VNone)]\<rparr>
        ''result'' = None
   \<and> [(''result'', VNone)]
       = property_cache_data (cache_set (new_cache ''PropertyCache'') ''result'' VNone)
   \<and> resolve demo_python
        \<lparr>refstr = ''@checks.svc_check.is_running.result'', vars = None,
         checks = Some [(''svc_check'', \<lparr>cache_class = ''PropertyCache'', property_cache_data =
           [(''is_running'', VCache ''PropertyCache'' [(''result'', VNone)])]\<rparr>)]\<rparr>
     = Inr VNone
   \<and> dict_get (the_dict (getattr_cache demo_python
        (cache_set (new_cache ''PropertyCache'') ''result'' VNone) ''data'')) ''result''
     = Some VNone
   \<and> dict_get (the_dict (getattr_cache demo_python (new_cache ''PropertyCache'') ''data''))
        ''result''
     = None"
proof -
  let ?cc = "\<lparr>cache_class = ''PropertyCache'', property_cache_data =
           [(''is_running'', VCache ''PropertyCache'' [(''result'', VNone)])]\<rparr>"
  let ?q = "\<lparr>refstr = ''@checks.svc_check.is_running.result'', vars = None,
         checks = Some [(''svc_check'', ?cc)]\<rparr>"
  note T = none_entry_same_as_unset [where py = demo_python
      and c = "new_cache ''PropertyCache''" and k = "''result''"
      and c' = "new_cache ''PropertyCache''" and k' = "''result''"
      and q = ?q and cn = "''svc_check''" and pn = "''is_running''"
      and key = "''result''" and cs = "[(''svc_check'', ?cc)]" and cc = ?cc
      and cls = "''PropertyCache''" and d = "[(''result'', VNone)]"
      and pc = "new_cache ''PropertyCache''"
      and ?c0.0 = "new_cache ''PropertyCache''" and ?k0.0 = "''result''"
      and ?c3.0 = "new_cache ''PropertyCache''" and ?k3.0 = "''result''"]
  have ka: "cache_attribute demo_python (new_cache ''PropertyCache'') ''result'' = None"
    by code_simp
  have ab: "\<not> dict_has (property_cache_data (new_cache ''PropertyCache'')) ''result''"
    by code_simp
  have cn: "check_name ''@checks.svc_check.is_running.result'' = Inr ''svc_check''"
    by code_simp
  have pn: "property_name ''@checks.svc_check.is_running.result'' = Inr (Some ''is_running'')"
    by code_simp
  have key: "property_cache_key ''@checks.svc_check.is_running.result'' = Inr ''result''"
    by code_simp
  have ga: "getattr_cache demo_python ?cc ''is_running''
      = VCache ''PropertyCache'' [(''result'', VNone)]"
    by code_simp
  have ca: "cache_attribute demo_python
      \<lparr>cache_class = ''PropertyCache'', property_cache_data = [(''result'', VNone)]\<rparr>
      ''result'' = None"
    by code_simp
  have d: "[(''result'', VNone)]
       = property_cache_data (cache_set (new_cache ''PropertyCache'') ''result'' VNone)"
    by code_simp
  have r1: "getattr_cache demo_python
      (cache_set (new_cache ''PropertyCache'') ''result'' VNone) ''result'' = VNone"
    using T [THEN conjunct1] ka by (rule mp)
  have r2: "getattr_cache demo_python (new_cache ''PropertyCache'') ''result'' = VNone"
    using T [THEN conjunct2, THEN conjunct1] conjI [OF ka ab] by (rule mp)
  have r3: "resolve demo_python ?q = Inr VNone"
    using T [THEN conjunct2, THEN conjunct2, THEN conjunct1] cn pn key ga ca d
    by (simp add: dict_get_def)
  have r4: "dict_get (the_dict (getattr_cache demo_python
        (cache_set (new_cache ''PropertyCache'') ''result'' VNone) ''data'')) ''result''
     = Some VNone"
    using T by (elim conjE)
  have r5: "dict_get (the_dict (getattr_cache demo_python (new_cache ''PropertyCache'') ''data''))
        ''result'' = None"
    using T [THEN conjunct2, THEN conjunct2, THEN conjunct2, THEN conjunct2] ab by (rule mp)
  show ?thesis
    by (intro conjI ka r1 ab r2 cn pn key ga ca d r3 r4 r5)
qed

section \<open>Properties of the dynamic lookup\<close>

lemma load_add_same:
  "run_context s \<noteq> None \<Longrightarrow> load_from_import_cache (add_to_import_cache s k v) k = v"
  by (auto simp: load_from_import_cache_def add_to_import_cache_def dict_get_none_def
      dict_get_def dict_set_def update_conv' split: option.splits)

lemma add_to_import_cache_fields:
  "events (add_to_import_cache s k v) = events s"
  "next_id (add_to_import_cache s k v) = next_id s"
  "run_context (add_to_import_cache s k v) = None \<longleftrightarrow> run_context s = None"
  by (auto simp: add_to_import_cache_def split: option.splits)

lemma load_events_update [simp]:
  "load_from_import_cache (s\<lparr>events := es\<rparr>) k = load_from_import_cache s k"
  by (simp add: load_from_import_cache_def)

lemma load_next_id_update [simp]:
  "load_from_import_cache (s\<lparr>next_id := n\<rparr>) k = load_from_import_cache s k"
  by (simp add: load_from_import_cache_def)

lemma import_cls_success:
  assumes "import_cls rt i s = (Inr v, s1)"
  shows "s1 = add_to_import_cache (s\<lparr>events := events s
            @ [ImportModule (part0 (str_rpartition i ''.''))]\<rparr>) i v"
  using assms by (auto simp: import_cls_def Let_def split: sum.splits option.splits)

lemma import_cls_events:
  "events (snd (import_cls rt i s)) = events s @ [ImportModule (part0 (str_rpartition i ''.''))]"
  by (auto simp: import_cls_def Let_def add_to_import_cache_fields split: sum.splits option.splits)

lemma import_cls_context:
  "run_context (snd (import_cls rt i s)) = None \<longleftrightarrow> run_context s = None"
  by (auto simp: import_cls_def Let_def add_to_import_cache_fields split: sum.splits option.splits)

lemma get_cls_context:
  "run_context (snd (get_cls rt i s)) = None \<longleftrightarrow> run_context s = None"
  using import_cls_context [of rt i s] by (simp add: get_cls_def Let_def)

lemma get_cls_events:
  "\<exists>es. events (snd (get_cls rt i s)) = events s @ es
        \<and> (\<forall>e. fst (get_cls rt i s) = Inl e \<longrightarrow> es \<noteq> [])"
  using import_cls_events [of rt i s] by (auto simp: get_cls_def Let_def)


lemma instance_of_cls_context:
  "run_context (snd (instance_of_cls rt c s)) = None \<longleftrightarrow> run_context s = None"
  by (auto simp: instance_of_cls_def Let_def add_to_import_cache_fields split: sum.splits)

lemma instance_of_cls_events:
  "\<exists>es. events (snd (instance_of_cls rt c s)) = events s @ es
        \<and> (\<forall>e. fst (instance_of_cls rt c s) = Inl e \<longrightarrow> es \<noteq> [])"
  by (auto simp: instance_of_cls_def Let_def add_to_import_cache_fields split: sum.splits)

lemma resolve_property_success:
  assumes "resolve_property rt j t = (Inr w, t1)"
  shows "\<exists>t3. t1 = add_to_import_cache t3 j w
             \<and> (run_context t3 = None \<longleftrightarrow> run_context t = None)"
proof -
  from assms obtain c u where c: "get_cls rt (part0 (str_rpartition j ''.'')) t = (Inr c, u)"
    by (auto simp: resolve_property_def split: prod.splits sum.splits)
  from assms c obtain inst u2 where inst: "instance_of_cls rt c u = (Inr inst, u2)"
    by (auto simp: resolve_property_def split: prod.splits sum.splits)
  from assms c inst have "t1 = add_to_import_cache
      (u2\<lparr>events := events u2 @ [ReadProperty inst (part2 (str_rpartition j ''.''))]\<rparr>) j w"
    by (auto simp: resolve_property_def Let_def split: sum.splits)
  moreover have "run_context u = None \<longleftrightarrow> run_context t = None"
    using get_cls_context [of rt "part0 (str_rpartition j ''.'')" t] c by simp
  moreover have "run_context u2 = None \<longleftrightarrow> run_context u = None"
    using instance_of_cls_context [of rt c u] inst by simp
  ultimately show ?thesis
    by (intro exI [of _ "u2\<lparr>events := events u2
          @ [ReadProperty inst (part2 (str_rpartition j ''.''))]\<rparr>"]) simp
qed


lemma resolve_property_events:
  "\<exists>es. es \<noteq> [] \<and> events (snd (resolve_property rt j t)) = events t @ es"
proof -
  let ?p = "part0 (str_rpartition j ''.'')"
  obtain r u where c: "get_cls rt ?p t = (r, u)" by (cases "get_cls rt ?p t")
  from get_cls_events [of rt ?p t] c obtain es1 where
    es1: "events u = events t @ es1" "\<forall>e. r = Inl e \<longrightarrow> es1 \<noteq> []" by auto
  show ?thesis
  proof (cases r)
    case (Inl e)
    with c es1 show ?thesis by (auto simp: resolve_property_def)
  next
    case (Inr cls)
    obtain r2 u2 where i: "instance_of_cls rt cls u = (r2, u2)"
      by (cases "instance_of_cls rt cls u")
    from instance_of_cls_events [of rt cls u] i obtain es2 where
      es2: "events u2 = events u @ es2" "\<forall>e. r2 = Inl e \<longrightarrow> es2 \<noteq> []" by auto
    show ?thesis
    proof (cases r2)
      case (Inl e)
      with c Inr i es1 es2 show ?thesis by (auto simp: resolve_property_def)
    next
      case (Inr inst)
      with c \<open>r = Inr cls\<close> i es1 es2 show ?thesis
        by (auto simp: resolve_property_def Let_def add_to_import_cache_fields
            split: sum.splits)
    qed
  qed
qed

lemma add_to_import_cache_present:
  "run_context s \<noteq> None \<Longrightarrow>
   \<exists>ctx c. run_context (add_to_import_cache s k v) = Some ctx \<and> import_cache ctx = Some c
     \<and> dict_get c k = Some v"
  by (auto simp: add_to_import_cache_def dict_get_def dict_set_def update_conv'
      split: option.splits)

lemma add_to_import_cache_again:
  "run_context s \<noteq> None \<Longrightarrow>
   add_to_import_cache ((add_to_import_cache s k v)\<lparr>events := es\<rparr>) k v
     = (add_to_import_cache s k v)\<lparr>events := es\<rparr>"
  by (auto simp: add_to_import_cache_def dict_set_def update_conv' update_triv
      split: option.splits)

lemma get_cls_falsy_again:
  assumes ctx: "run_context s0 \<noteq> None"
    and falsy: "\<not> truthy v"
    and imp: "import_module rt (part0 (str_rpartition i ''.'')) = Inr m"
    and attr: "dict_get m (part2 (str_rpartition i ''.'')) = Some v"
  shows "get_cls rt i ((add_to_import_cache s0 i v)\<lparr>events := es\<rparr>)
     = (Inr v, (add_to_import_cache s0 i v)
          \<lparr>events := es @ [ImportModule (part0 (str_rpartition i ''.''))]\<rparr>)"
proof -
  have "load_from_import_cache ((add_to_import_cache s0 i v)\<lparr>events := es\<rparr>) i = v"
    using ctx by (simp add: load_add_same)
  with falsy have "get_cls rt i ((add_to_import_cache s0 i v)\<lparr>events := es\<rparr>)
      = import_cls rt i ((add_to_import_cache s0 i v)\<lparr>events := es\<rparr>)"
    by (simp add: get_cls_def)
  also have "\<dots> = (Inr v, add_to_import_cache
      ((add_to_import_cache s0 i v)
         \<lparr>events := es @ [ImportModule (part0 (str_rpartition i ''.''))]\<rparr>) i v)"
    using imp attr by (simp add: import_cls_def)
  finally show ?thesis
    using ctx by (simp add: add_to_import_cache_again)
qed

lemma get_cls_falsy_repeated:
  assumes ctx: "run_context s0 \<noteq> None"
    and falsy: "\<not> truthy v"
    and imp: "import_module rt (part0 (str_rpartition i ''.'')) = Inr m"
    and attr: "dict_get m (part2 (str_rpartition i ''.'')) = Some v"
  shows "((\<lambda>u. snd (get_cls rt i u)) ^^ n) ((add_to_import_cache s0 i v)\<lparr>events := es\<rparr>)
     = (add_to_import_cache s0 i v)
          \<lparr>events := es @ replicate n (ImportModule (part0 (str_rpartition i ''.'')))\<rparr>"
proof (induction n)
  case 0
  show ?case by simp
next
  case (Suc n)
  show ?case
    using get_cls_falsy_again [OF ctx falsy imp attr] Suc
    by (simp add: replicate_append_same)
qed






text \<open>
  C5: for a module that exists and does not have the class, \<open>get_cls\<close> re-raises the
  \<^verbatim>\<open>AttributeError\<close> as it is, where \<open>get_attribute\<close> on the same identifier raises
  \<^verbatim>\<open>ImportError\<close>; only a module that cannot be imported gives \<^verbatim>\<open>ImportError\<close> from
  \<open>get_cls\<close>.
\<close>

theorem get_cls_missing_class_not_normalized:
  "fst (get_cls demo_runtime ''plugins.storage.NoSuchClass'' demo_state) = Inl AttributeError
   \<and> fst (get_attribute demo_runtime ''plugins.storage.NoSuchClass'' demo_state)
       = Inl ImportError
   \<and> fst (get_cls demo_runtime ''plugins.nomodule.NoSuchClass'' demo_state) = Inl ImportError"
  by code_simp

lemma get_cls_falsy_result:
  assumes "get_cls rt i s = (Inr v, s1)" and "\<not> truthy v"
  shows "import_cls rt i s = (Inr v, s1)"
proof (cases "truthy (load_from_import_cache s i)")
  case True
  with assms show ?thesis by (auto simp: get_cls_def)
next
  case False
  with assms show ?thesis by (simp add: get_cls_def)
qed

lemma get_property_falsy_result:
  assumes "get_property rt j t = (Inr w, t1)" and "\<not> truthy w"
  shows "resolve_property rt j t = (Inr w, t1)"
proof (cases "truthy (load_from_import_cache t j)")
  case True
  with assms show ?thesis by (auto simp: get_property_def)
next
  case False
  with assms show ?thesis by (simp add: get_property_def)
qed

lemma import_cls_success_module:
  assumes "import_cls rt i s = (Inr v, s1)"
  shows "\<exists>m. import_module rt (part0 (str_rpartition i ''.'')) = Inr m
           \<and> dict_get m (part2 (str_rpartition i ''.'')) = Some v"
  using assms by (auto simp: import_cls_def Let_def split: sum.splits option.splits)

lemma events_update_self: "(s::run_state)\<lparr>events := events s\<rparr> = s"
  by simp


lemma get_cls_falsy_repeated_events:
  assumes "run_context s0 \<noteq> None"
    and "\<not> truthy v"
    and "import_module rt (part0 (str_rpartition i ''.'')) = Inr m"
    and "dict_get m (part2 (str_rpartition i ''.'')) = Some v"
  shows "((\<lambda>u. snd (get_cls rt i u)) ^^ n) (add_to_import_cache s0 i v)
     = (add_to_import_cache s0 i v)
          \<lparr>events := events (add_to_import_cache s0 i v)
             @ replicate n (ImportModule (part0 (str_rpartition i ''.'')))\<rparr>"
  using get_cls_falsy_repeated [OF assms, where es = "events (add_to_import_cache s0 i v)"
      and n = n]
  by simp

lemma get_cls_falsy_lookups:
  assumes ctx0: "run_context s \<noteq> None"
    and res: "get_cls rt i s = (Inr v, s1)"
    and falsy: "\<not> truthy v"
  shows "\<exists>ctx c. run_context s1 = Some ctx \<and> import_cache ctx = Some c \<and> dict_get c i = Some v"
    and "get_cls rt i s1 = import_cls rt i s1"
    and "((\<lambda>u. snd (get_cls rt i u)) ^^ n) s1
           = s1\<lparr>events := events s1
                 @ replicate n (ImportModule (part0 (str_rpartition i ''.'')))\<rparr>"
proof -
  let ?m = "part0 (str_rpartition i ''.'')"
  let ?s' = "s\<lparr>events := events s @ [ImportModule ?m]\<rparr>"
  have ctx: "run_context ?s' \<noteq> None"
    using ctx0 by simp
  have imp: "import_cls rt i s = (Inr v, s1)"
    using res falsy by (rule get_cls_falsy_result)
  then have s1: "s1 = add_to_import_cache ?s' i v"
    by (rule import_cls_success)
  from import_cls_success_module [OF imp] obtain m where
    m: "import_module rt ?m = Inr m" "dict_get m (part2 (str_rpartition i ''.'')) = Some v"
    by blast
  show "\<exists>ctx c. run_context s1 = Some ctx \<and> import_cache ctx = Some c \<and> dict_get c i = Some v"
    unfolding s1 using ctx by (rule add_to_import_cache_present)
  have "load_from_import_cache s1 i = v"
    unfolding s1 using ctx by (rule load_add_same)
  with falsy show "get_cls rt i s1 = import_cls rt i s1"
    by (simp add: get_cls_def)
  show "((\<lambda>u. snd (get_cls rt i u)) ^^ n) s1
      = s1\<lparr>events := events s1 @ replicate n (ImportModule ?m)\<rparr>"
    unfolding s1 using ctx falsy m by (rule get_cls_falsy_repeated_events)
qed


lemma resolve_property_success_context:
  assumes "run_context t \<noteq> None" and "resolve_property rt j t = (Inr w, t1)"
  shows "\<exists>t3. t1 = add_to_import_cache t3 j w \<and> run_context t3 \<noteq> None"
  using resolve_property_success [OF assms(2)] assms(1) by blast

lemma get_property_falsy_miss:
  assumes "load_from_import_cache t1 j = w" and "\<not> truthy w"
  shows "get_property rt j t1 = resolve_property rt j t1"
  using assms by (simp add: get_property_def)

lemma get_property_falsy_lookups:
  assumes ctx0: "run_context t \<noteq> None"
    and res: "get_property rt j t = (Inr w, t1)"
    and falsy: "\<not> truthy w"
  shows "\<exists>ctx c. run_context t1 = Some ctx \<and> import_cache ctx = Some c \<and> dict_get c j = Some w"
    and "get_property rt j t1 = resolve_property rt j t1"
    and "\<exists>es. es \<noteq> [] \<and> events (snd (get_property rt j t1)) = events t1 @ es"
proof -
  have "resolve_property rt j t = (Inr w, t1)"
    using res falsy by (rule get_property_falsy_result)
  with ctx0 have "\<exists>t3. t1 = add_to_import_cache t3 j w \<and> run_context t3 \<noteq> None"
    by (rule resolve_property_success_context)
  then obtain t3 where t1: "t1 = add_to_import_cache t3 j w" and ctx: "run_context t3 \<noteq> None"
    by (elim exE conjE)
  show "\<exists>ctx c. run_context t1 = Some ctx \<and> import_cache ctx = Some c \<and> dict_get c j = Some w"
    unfolding t1 using ctx by (rule add_to_import_cache_present)
  have "load_from_import_cache t1 j = w"
    unfolding t1 using ctx by (rule load_add_same)
  then show again: "get_property rt j t1 = resolve_property rt j t1"
    using falsy by (rule get_property_falsy_miss)
  show "\<exists>es. es \<noteq> [] \<and> events (snd (get_property rt j t1)) = events t1 @ es"
    unfolding again by (rule resolve_property_events)
qed

text \<open>
  C9: with a run context available, a successful \<open>get_cls\<close> or \<open>get_property\<close> whose
  result is falsy does store the result in the import cache under the identifier, and the
  next lookup still takes the path of a cache miss: it is \<open>import_cls\<close> (respectively
  \<open>resolve_property\<close>) run again. For a class every later lookup imports the module once
  more (\<open>n\<close> lookups append \<open>n\<close> import events and change nothing else); for a property the
  next lookup appends at least one event.
\<close>

theorem falsy_result_is_resolved_again:
  "(run_context s \<noteq> None \<and> get_cls rt i s = (Inr v, s1) \<and> \<not> truthy v \<longrightarrow>
      (\<exists>ctx c. run_context s1 = Some ctx \<and> import_cache ctx = Some c \<and> dict_get c i = Some v)
      \<and> get_cls rt i s1 = import_cls rt i s1
      \<and> (\<forall>n. ((\<lambda>u. snd (get_cls rt i u)) ^^ n) s1
             = s1\<lparr>events := events s1
                   @ replicate n (ImportModule (part0 (str_rpartition i ''.'')))\<rparr>))
   \<and> (run_context t \<noteq> None \<and> get_property rt j t = (Inr w, t1) \<and> \<not> truthy w \<longrightarrow>
      (\<exists>ctx c. run_context t1 = Some ctx \<and> import_cache ctx = Some c \<and> dict_get c j = Some w)
      \<and> get_property rt j t1 = resolve_property rt j t1
      \<and> (\<exists>es. es \<noteq> [] \<and> events (snd (get_property rt j t1)) = events t1 @ es))"
proof (intro conjI impI allI)
  assume h: "run_context s \<noteq> None \<and> get_cls rt i s = (Inr v, s1) \<and> \<not> truthy v"
  then have a: "run_context s \<noteq> None" and b: "get_cls rt i s = (Inr v, s1)"
    and c: "\<not> truthy v"
    by blast+
  show "\<exists>ctx c. run_context s1 = Some ctx \<and> import_cache ctx = Some c \<and> dict_get c i = Some v"
    using a b c by (rule get_cls_falsy_lookups(1))
  show "get_cls rt i s1 = import_cls rt i s1"
    using a b c by (rule get_cls_falsy_lookups(2))
  fix n
  show "((\<lambda>u. snd (get_cls rt i u)) ^^ n) s1
      = s1\<lparr>events := events s1
            @ replicate n (ImportModule (part0 (str_rpartition i ''.'')))\<rparr>"
    using a b c by (rule get_cls_falsy_lookups(3))
next
  assume h: "run_context t \<noteq> None \<and> get_property rt j t = (Inr w, t1) \<and> \<not> truthy w"
  then have a: "run_context t \<noteq> None" and b: "get_property rt j t = (Inr w, t1)"
    and c: "\<not> truthy w"
    by blast+
  show "\<exists>ctx c. run_context t1 = Some ctx \<and> import_cache ctx = Some c \<and> dict_get c j = Some w"
    using a b c by (rule get_property_falsy_lookups(1))
  show "get_property rt j t1 = resolve_property rt j t1"
    using a b c by (rule get_property_falsy_lookups(2))
  show "\<exists>es. es \<noteq> [] \<and> events (snd (get_property rt j t1)) = events t1 @ es"
    using a b c by (rule get_property_falsy_lookups(3))
qed


text \<open>
  The attribute \<^verbatim>\<open>ENABLED\<close> and the property \<^verbatim>\<open>has_errors\<close> of the example runtime, both
  \<^verbatim>\<open>False\<close>, looked up twice.
\<close>

theorem falsy_result_is_resolved_again_witness:
  "run_context demo_state \<noteq> None
   \<and> get_cls demo_runtime ''plugins.storage.ENABLED'' demo_state
       = (Inr (VBool False), snd (get_cls demo_runtime ''plugins.storage.ENABLED'' demo_state))
   \<and> \<not> truthy (VBool False)
   \<and> get_cls demo_runtime ''plugins.storage.ENABLED''
         (snd (get_cls demo_runtime ''plugins.storage.ENABLED'' demo_state))
       = import_cls demo_runtime ''plugins.storage.ENABLED''
           (snd (get_cls demo_runtime ''plugins.storage.ENABLED'' demo_state))
   \<and> get_property demo_runtime ''plugins.storage.CephChecks.has_errors'' demo_state
       = (Inr (VBool False),
          snd (get_property demo_runtime ''plugins.storage.CephChecks.has_errors'' demo_state))
   \<and> get_property demo_runtime ''plugins.storage.CephChecks.has_errors''
         (snd (get_property demo_runtime ''plugins.storage.CephChecks.has_errors'' demo_state))
       = resolve_property demo_runtime ''plugins.storage.CephChecks.has_errors''
         (snd (get_property demo_runtime ''plugins.storage.CephChecks.has_errors'' demo_state))"
proof -
  note T = falsy_result_is_resolved_again [where rt = demo_runtime and s = demo_state
      and i = "''plugins.storage.ENABLED''" and v = "VBool False"
      and ?s1.0 = "snd (get_cls demo_runtime ''plugins.storage.ENABLED'' demo_state)"
      and t = demo_state and j = "''plugins.storage.CephChecks.has_errors''"
      and w = "VBool False"
      and ?t1.0 = "snd (get_property demo_runtime ''plugins.storage.CephChecks.has_errors''
          demo_state)"]
  have c: "run_context demo_state \<noteq> None"
    by (simp add: demo_state_def)
  have f: "\<not> truthy (VBool False)"
    by simp
  have "fst (get_cls demo_runtime ''plugins.storage.ENABLED'' demo_state) = Inr (VBool False)"
    by code_simp
  then have e1: "get_cls demo_runtime ''plugins.storage.ENABLED'' demo_state
       = (Inr (VBool False), snd (get_cls demo_runtime ''plugins.storage.ENABLED'' demo_state))"
    by (simp add: prod_eq_iff)
  have r1: "get_cls demo_runtime ''plugins.storage.ENABLED''
         (snd (get_cls demo_runtime ''plugins.storage.ENABLED'' demo_state))
       = import_cls demo_runtime ''plugins.storage.ENABLED''
           (snd (get_cls demo_runtime ''plugins.storage.ENABLED'' demo_state))"
    using T [THEN conjunct1, THEN mp, OF conjI [OF c conjI [OF e1 f]]]
    by (elim conjE)
  have "fst (get_property demo_runtime ''plugins.storage.CephChecks.has_errors'' demo_state)
      = Inr (VBool False)"
    by code_simp
  then have e2: "get_property demo_runtime ''plugins.storage.CephChecks.has_errors'' demo_state
       = (Inr (VBool False),
          snd (get_property demo_runtime ''plugins.storage.CephChecks.has_errors'' demo_state))"
    by (simp add: prod_eq_iff)
  have r2: "get_property demo_runtime ''plugins.storage.CephChecks.has_errors''
         (snd (get_property demo_runtime ''plugins.storage.CephChecks.has_errors'' demo_state))
       = resolve_property demo_runtime ''plugins.storage.CephChecks.has_errors''
         (snd (get_property demo_runtime ''plugins.storage.CephChecks.has_errors'' demo_state))"
    using T [THEN conjunct2, THEN mp, OF conjI [OF c conjI [OF e2 f]]]
    by (elim conjE)
  show ?thesis
    by (intro conjI c e1 f r1 e2 r2)
qed

section \<open>Properties of the logical collection handler\<close>

lemma group_results_override_name [simp]:
  "group_results h (g\<lparr>override_name := n\<rparr>) = group_results h g"
  by (simp add: group_results_def)

lemma py_all_bools: "py_all (map VBool bs) \<longleftrightarrow> (\<forall>b\<in>set bs. b)"
  by (induction bs) (auto simp: py_all_def)

lemma py_any_bools: "py_any (map VBool bs) \<longleftrightarrow> (\<exists>b\<in>set bs. b)"
  by (induction bs) (auto simp: py_any_def)

lemma run_logical_op_group_results:
  assumes "group_results h g = Inr rs"
  shows "run_logical_op_group h (g\<lparr>override_name := ''and''\<rparr>) = Inr (py_all rs)"
    and "run_logical_op_group h (g\<lparr>override_name := ''or''\<rparr>) = Inr (py_any rs)"
    and "run_logical_op_group h (g\<lparr>override_name := ''nand''\<rparr>) = Inr (\<not> py_all rs)"
    and "run_logical_op_group h (g\<lparr>override_name := ''not''\<rparr>) = Inr (\<not> py_all rs)"
    and "run_logical_op_group h (g\<lparr>override_name := ''nor''\<rparr>) = Inr (\<not> py_any rs)"
  using assms by (simp_all add: run_logical_op_group_def)

text \<open>
  C7: when the members of a group give the booleans \<open>bs\<close>, the group evaluates, under
  the name \<^verbatim>\<open>and\<close>, to whether all of \<open>bs\<close> are true; under \<^verbatim>\<open>or\<close>, to whether one is;
  under \<^verbatim>\<open>nand\<close> and under \<^verbatim>\<open>not\<close>, to whether not all are; under \<^verbatim>\<open>nor\<close>, to whether
  none is. With no member results these are true, false, false, false and true.
\<close>

theorem logical_group_combinators:
  "(group_results h g = Inr (map VBool bs) \<longrightarrow>
      run_logical_op_group h (g\<lparr>override_name := ''and''\<rparr>) = Inr (\<forall>b\<in>set bs. b)
      \<and> run_logical_op_group h (g\<lparr>override_name := ''or''\<rparr>) = Inr (\<exists>b\<in>set bs. b)
      \<and> run_logical_op_group h (g\<lparr>override_name := ''nand''\<rparr>) = Inr (\<not> (\<forall>b\<in>set bs. b))
      \<and> run_logical_op_group h (g\<lparr>override_name := ''not''\<rparr>) = Inr (\<not> (\<forall>b\<in>set bs. b))
      \<and> run_logical_op_group h (g\<lparr>override_name := ''nor''\<rparr>) = Inr (\<not> (\<exists>b\<in>set bs. b)))
   \<and> (group_results h0 g0 = Inr [] \<longrightarrow>
      run_logical_op_group h0 (g0\<lparr>override_name := ''and''\<rparr>) = Inr True
      \<and> run_logical_op_group h0 (g0\<lparr>override_name := ''or''\<rparr>) = Inr False
      \<and> run_logical_op_group h0 (g0\<lparr>override_name := ''nand''\<rparr>) = Inr False
      \<and> run_logical_op_group h0 (g0\<lparr>override_name := ''not''\<rparr>) = Inr False
      \<and> run_logical_op_group h0 (g0\<lparr>override_name := ''nor''\<rparr>) = Inr True)"
proof (intro conjI impI)
  assume r: "group_results h g = Inr (map VBool bs)"
  show "run_logical_op_group h (g\<lparr>override_name := ''and''\<rparr>) = Inr (\<forall>b\<in>set bs. b)"
    using run_logical_op_group_results(1) [OF r] by (simp add: py_all_bools)
  show "run_logical_op_group h (g\<lparr>override_name := ''or''\<rparr>) = Inr (\<exists>b\<in>set bs. b)"
    using run_logical_op_group_results(2) [OF r] by (simp add: py_any_bools)
  show "run_logical_op_group h (g\<lparr>override_name := ''nand''\<rparr>) = Inr (\<not> (\<forall>b\<in>set bs. b))"
    using run_logical_op_group_results(3) [OF r] by (simp add: py_all_bools)
  show "run_logical_op_group h (g\<lparr>override_name := ''not''\<rparr>) = Inr (\<not> (\<forall>b\<in>set bs. b))"
    using run_logical_op_group_results(4) [OF r] by (simp add: py_all_bools)
  show "run_logical_op_group h (g\<lparr>override_name := ''nor''\<rparr>) = Inr (\<not> (\<exists>b\<in>set bs. b))"
    using run_logical_op_group_results(5) [OF r] by (simp add: py_any_bools)
next
  assume r: "group_results h0 g0 = Inr []"
  show "run_logical_op_group h0 (g0\<lparr>override_name := ''and''\<rparr>) = Inr True"
    using run_logical_op_group_results(1) [OF r] by (simp add: py_all_def)
  show "run_logical_op_group h0 (g0\<lparr>override_name := ''or''\<rparr>) = Inr False"
    using run_logical_op_group_results(2) [OF r] by (simp add: py_any_def)
  show "run_logical_op_group h0 (g0\<lparr>override_name := ''nand''\<rparr>) = Inr False"
    using run_logical_op_group_results(3) [OF r] by (simp add: py_all_def)
  show "run_logical_op_group h0 (g0\<lparr>override_name := ''not''\<rparr>) = Inr False"
    using run_logical_op_group_results(4) [OF r] by (simp add: py_all_def)
  show "run_logical_op_group h0 (g0\<lparr>override_name := ''nor''\<rparr>) = Inr True"
    using run_logical_op_group_results(5) [OF r] by (simp add: py_any_def)
qed

text \<open>
  The members \<open>[True]\<close> and \<open>[False]\<close>, and a group without members.
\<close>

theorem logical_group_combinators_witness:
  "group_results
      \<lparr>run_single = (\<lambda>sub :: string \<times> unit. Inr []),
       get_item_result_callback = (\<lambda>entry. Inl NotImplementedError),
       call_entry = (\<lambda>entry. Inr (VBool entry))\<rparr>
      \<lparr>override_name = ''nand'', members = [[True], [False]]\<rparr>
     = Inr (map VBool [True, False])
   \<and> run_logical_op_group
      \<lparr>run_single = (\<lambda>sub :: string \<times> unit. Inr []),
       get_item_result_callback = (\<lambda>entry. Inl NotImplementedError),
       call_entry = (\<lambda>entry. Inr (VBool entry))\<rparr>
      (\<lparr>override_name = ''nand'', members = [[True], [False]]\<rparr>\<lparr>override_name := ''and''\<rparr>)
     = Inr False
   \<and> run_logical_op_group
      \<lparr>run_single = (\<lambda>sub :: string \<times> unit. Inr []),
       get_item_result_callback = (\<lambda>entry. Inl NotImplementedError),
       call_entry = (\<lambda>entry. Inr (VBool entry))\<rparr>
      (\<lparr>override_name = ''nand'', members = [[True], [False]]\<rparr>\<lparr>override_name := ''nand''\<rparr>)
     = Inr True
   \<and> group_results
      \<lparr>run_single = (\<lambda>sub :: string \<times> unit. Inr []),
       get_item_result_callback = (\<lambda>entry. Inl NotImplementedError),
       call_entry = (\<lambda>entry. Inr (VBool entry))\<rparr>
      \<lparr>override_name = ''not'', members = []\<rparr>
     = Inr []
   \<and> run_logical_op_group
      \<lparr>run_single = (\<lambda>sub :: string \<times> unit. Inr []),
       get_item_result_callback = (\<lambda>entry. Inl NotImplementedError),
       call_entry = (\<lambda>entry. Inr (VBool entry))\<rparr>
      (\<lparr>override_name = ''not'', members = []\<rparr>\<lparr>override_name := ''not''\<rparr>)
     = Inr False
   \<and> run_logical_op_group
      \<lparr>run_single = (\<lambda>sub :: string \<times> unit. Inr []),
       get_item_result_callback = (\<lambda>entry. Inl NotImplementedError),
       call_entry = (\<lambda>entry. Inr (VBool entry))\<rparr>
      (\<lparr>override_name = ''not'', members = []\<rparr>\<lparr>override_name := ''nor''\<rparr>)
     = Inr True"
  using logical_group_combinators [where
      h = "\<lparr>run_single = (\<lambda>sub :: string \<times> unit. Inr []),
       get_item_result_callback = (\<lambda>entry. Inl NotImplementedError),
       call_entry = (\<lambda>entry. Inr (VBool entry))\<rparr>"
      and g = "\<lparr>override_name = ''nand'', members = [[True], [False]]\<rparr>"
      and bs = "[True, False]"
      and ?h0.0 = "\<lparr>run_single = (\<lambda>sub :: string \<times> unit. Inr []),
       get_item_result_callback = (\<lambda>entry. Inl NotImplementedError),
       call_entry = (\<lambda>entry. Inr (VBool entry))\<rparr>"
      and ?g0.0 = "\<lparr>override_name = ''not'', members = ([] :: bool list list)\<rparr>"]
  by (simp add: group_results_def entry_result_def)

lemma run_logical_op_group_unknown:
  "override_name g \<notin> set VALID_GROUP_KEYS \<Longrightarrow>
   run_logical_op_group h g = Inl (UnknownLogicalOperator (override_name g))"
  by (simp add: run_logical_op_group_def VALID_GROUP_KEYS_def)

lemma run_ops_abort:
  "op \<in> set ops \<Longrightarrow> op_groups it op = Some g \<Longrightarrow> run_logical_op_group h g = Inl e \<Longrightarrow>
   \<exists>e'. run_ops h it ops = Inl e'"
proof (induction ops)
  case Nil
  then show ?case by simp
next
  case (Cons a ops)
  show ?case
  proof (cases "a = op")
    case True
    with Cons.prems show ?thesis by simp
  next
    case False
    with Cons obtain e' where "run_ops h it ops = Inl e'" by auto
    then show ?thesis by (simp split: option.splits sum.splits)
  qed
qed

lemma run_level_abort:
  "it \<in> set level \<Longrightarrow> run_op_groups h it = Inl e \<Longrightarrow> \<exists>e'. run_level h level = Inl e'"
proof (induction level)
  case Nil
  then show ?case by simp
next
  case (Cons a level)
  show ?case
  proof (cases "it = a")
    case True
    with Cons.prems show ?thesis by simp
  next
    case False
    with Cons obtain e' where "run_level h level = Inl e'" by auto
    then show ?thesis by (simp split: sum.splits)
  qed
qed

lemma run_ops_values:
  "\<forall>op\<in>set ops. \<forall>g. op_groups it op = Some g \<longrightarrow> run_logical_op_group h g = Inr (gv op) \<Longrightarrow>
   run_ops h it ops
     = Inr (map (\<lambda>op. VBool (gv op)) (filter (\<lambda>op. op_groups it op \<noteq> None) ops))"
proof (induction ops)
  case Nil
  then show ?case by simp
next
  case (Cons a ops)
  then have rest: "run_ops h it ops
      = Inr (map (\<lambda>op. VBool (gv op)) (filter (\<lambda>op. op_groups it op \<noteq> None) ops))"
    by simp
  show ?case
  proof (cases "op_groups it a")
    case None
    with rest show ?thesis by simp
  next
    case (Some g)
    with Cons.prems have "run_logical_op_group h g = Inr (gv a)" by simp
    with Some rest show ?thesis by simp
  qed
qed

lemma run_subitems_values:
  "\<forall>sub\<in>set subs. fst sub \<notin> set VALID_GROUP_KEYS \<longrightarrow> run_single h sub = Inr (rs sub) \<Longrightarrow>
   run_subitems h subs
     = Inr (concat (map rs (filter (\<lambda>sub. fst sub \<notin> set VALID_GROUP_KEYS) subs)))"
proof (induction subs)
  case Nil
  then show ?case by simp
next
  case (Cons a subs)
  then have rest: "run_subitems h subs
      = Inr (concat (map rs (filter (\<lambda>sub. fst sub \<notin> set VALID_GROUP_KEYS) subs)))"
    by simp
  show ?case
  proof (cases "fst a \<in> set VALID_GROUP_KEYS")
    case True
    with rest show ?thesis by simp
  next
    case False
    with Cons.prems have "run_single h a = Inr (rs a)" by simp
    with False rest show ?thesis by simp
  qed
qed

lemma run_level_values:
  assumes "\<forall>it\<in>set level. \<forall>op\<in>set VALID_GROUP_KEYS. \<forall>g.
             op_groups it op = Some g \<longrightarrow> run_logical_op_group h g = Inr (gv it op)"
    and "\<forall>it\<in>set level. \<forall>sub\<in>set (subitems it).
             fst sub \<notin> set VALID_GROUP_KEYS \<longrightarrow> run_single h sub = Inr (rs sub)"
  shows "run_level h level
     = Inr (concat (map (\<lambda>it.
         map (\<lambda>op. VBool (gv it op)) (filter (\<lambda>op. op_groups it op \<noteq> None) VALID_GROUP_KEYS)
         @ concat (map rs (filter (\<lambda>sub. fst sub \<notin> set VALID_GROUP_KEYS) (subitems it))))
       level))"
  using assms
proof (induction level)
  case Nil
  then show ?case by simp
next
  case (Cons a level)
  have g: "run_op_groups h a
      = Inr (map (\<lambda>op. VBool (gv a op)) (filter (\<lambda>op. op_groups a op \<noteq> None) VALID_GROUP_KEYS))"
    unfolding run_op_groups_def using Cons.prems(1) by (intro run_ops_values) simp
  have s: "run_subitems h (subitems a)
      = Inr (concat (map rs (filter (\<lambda>sub. fst sub \<notin> set VALID_GROUP_KEYS) (subitems a))))"
    using Cons.prems(2) by (intro run_subitems_values) simp
  have r: "run_level h level
     = Inr (concat (map (\<lambda>it.
         map (\<lambda>op. VBool (gv it op)) (filter (\<lambda>op. op_groups it op \<noteq> None) VALID_GROUP_KEYS)
         @ concat (map rs (filter (\<lambda>sub. fst sub \<notin> set VALID_GROUP_KEYS) (subitems it))))
       level))"
    using Cons.prems by (intro Cons.IH) simp_all
  show ?case
    by (simp add: g s r)
qed

text \<open>
  C3, as stated, fails: a level whose item has a child named \<^verbatim>\<open>foo\<close>, both as the
  attribute \<^verbatim>\<open>foo\<close> and as a sub-item, evaluates to the verdict of \<open>run_single\<close> on that
  child, here false; no unknown-operator error is raised.
\<close>

theorem unknown_group_key_counterexample:
  "''foo'' \<notin> set VALID_GROUP_KEYS
   \<and> run_collection
       \<lparr>run_single = (\<lambda>sub. Inr [VBool False]),
        get_item_result_callback = (\<lambda>entry. Inl NotImplementedError),
        call_entry = (\<lambda>entry. Inr (VBool entry))\<rparr>
       [\<lparr>op_groups = (\<lambda>op. if op = ''foo''
                              then Some \<lparr>override_name = ''foo'', members = [[True, True]]\<rparr>
                              else None),
         subitems = [(''foo'', ())]\<rparr>]
     = Inr False"
  by (simp add: VALID_GROUP_KEYS_def run_collection_def run_op_groups_def py_all_def)

text \<open>
  C3 (amended): \<open>run_logical_op_group\<close> raises the unknown-operator error, with the
  name, for a group whose name is outside the six valid keys; when a group that an item of
  the level has under one of the six valid keys raises, \<open>run_collection\<close> ends with an
  exception and no verdict; and when every group that the items have under the six valid
  keys evaluates to a boolean and \<open>run_single\<close> returns for every sub-item named outside
  the six keys, \<open>run_level\<close> returns, item by item, those booleans in the order of the
  keys followed by the results of \<open>run_single\<close> on those sub-items, and \<open>run_collection\<close>
  returns \<^verbatim>\<open>all\<close> of them: a child named outside the six keys is run as a single and
  raises no unknown-operator error.
\<close>

theorem unknown_operator_raised_by_group_evaluation:
  "(override_name g \<notin> set VALID_GROUP_KEYS \<longrightarrow>
      run_logical_op_group h g = Inl (UnknownLogicalOperator (override_name g)))
   \<and> (it \<in> set level \<and> op \<in> set VALID_GROUP_KEYS \<and> op_groups it op = Some g1
       \<and> run_logical_op_group h1 g1 = Inl e \<longrightarrow>
      (\<exists>e'. run_collection h1 level = Inl e'))
   \<and> ((\<forall>it\<in>set level0. \<forall>op\<in>set VALID_GROUP_KEYS. \<forall>g.
           op_groups it op = Some g \<longrightarrow> run_logical_op_group h0 g = Inr (gv it op))
       \<and> (\<forall>it\<in>set level0. \<forall>sub\<in>set (subitems it).
           fst sub \<notin> set VALID_GROUP_KEYS \<longrightarrow> run_single h0 sub = Inr (rs sub)) \<longrightarrow>
      run_level h0 level0
        = Inr (concat (map (\<lambda>it.
            map (\<lambda>op. VBool (gv it op))
              (filter (\<lambda>op. op_groups it op \<noteq> None) VALID_GROUP_KEYS)
            @ concat (map rs (filter (\<lambda>sub. fst sub \<notin> set VALID_GROUP_KEYS) (subitems it))))
          level0))
      \<and> run_collection h0 level0
        = Inr (py_all (concat (map (\<lambda>it.
            map (\<lambda>op. VBool (gv it op))
              (filter (\<lambda>op. op_groups it op \<noteq> None) VALID_GROUP_KEYS)
            @ concat (map rs (filter (\<lambda>sub. fst sub \<notin> set VALID_GROUP_KEYS) (subitems it))))
          level0))))"
proof (intro conjI impI)
  assume "override_name g \<notin> set VALID_GROUP_KEYS"
  then show "run_logical_op_group h g = Inl (UnknownLogicalOperator (override_name g))"
    by (rule run_logical_op_group_unknown)
next
  assume h: "it \<in> set level \<and> op \<in> set VALID_GROUP_KEYS \<and> op_groups it op = Some g1
       \<and> run_logical_op_group h1 g1 = Inl e"
  then obtain e1 where "run_op_groups h1 it = Inl e1"
    unfolding run_op_groups_def using run_ops_abort [of op VALID_GROUP_KEYS it g1 h1 e] by blast
  with h obtain e' where "run_level h1 level = Inl e'"
    using run_level_abort [of it level h1 e1] by blast
  then show "\<exists>e'. run_collection h1 level = Inl e'"
    by (simp add: run_collection_def)
next
  assume "(\<forall>it\<in>set level0. \<forall>op\<in>set VALID_GROUP_KEYS. \<forall>g.
           op_groups it op = Some g \<longrightarrow> run_logical_op_group h0 g = Inr (gv it op))
       \<and> (\<forall>it\<in>set level0. \<forall>sub\<in>set (subitems it).
           fst sub \<notin> set VALID_GROUP_KEYS \<longrightarrow> run_single h0 sub = Inr (rs sub))"
  then show lev: "run_level h0 level0
        = Inr (concat (map (\<lambda>it.
            map (\<lambda>op. VBool (gv it op))
              (filter (\<lambda>op. op_groups it op \<noteq> None) VALID_GROUP_KEYS)
            @ concat (map rs (filter (\<lambda>sub. fst sub \<notin> set VALID_GROUP_KEYS) (subitems it))))
          level0))"
    by (intro run_level_values) blast+
  then show "run_collection h0 level0
        = Inr (py_all (concat (map (\<lambda>it.
            map (\<lambda>op. VBool (gv it op))
              (filter (\<lambda>op. op_groups it op \<noteq> None) VALID_GROUP_KEYS)
            @ concat (map rs (filter (\<lambda>sub. fst sub \<notin> set VALID_GROUP_KEYS) (subitems it))))
          level0)))"
    by (simp add: run_collection_def)
qed

text \<open>
  A group named \<^verbatim>\<open>foo\<close>; a level whose \<^verbatim>\<open>nor\<close> group has an entry that raises; a level
  with an \<^verbatim>\<open>or\<close> group, a \<^verbatim>\<open>nand\<close> group and sub-items named \<^verbatim>\<open>foo\<close> and \<^verbatim>\<open>or\<close>.
\<close>

theorem unknown_operator_raised_by_group_evaluation_witness:
  "override_name \<lparr>override_name = ''foo'', members = [[True]]\<rparr> \<notin> set VALID_GROUP_KEYS
   \<and> run_logical_op_group
        \<lparr>run_single = (\<lambda>sub :: string \<times> unit. Inr [VBool True]),
         get_item_result_callback = (\<lambda>entry. Inl NotImplementedError),
         call_entry = (\<lambda>entry. if entry then Inr (VBool True) else Inl (OtherError ''boom''))\<rparr>
        \<lparr>override_name = ''foo'', members = [[True]]\<rparr>
       = Inl (UnknownLogicalOperator ''foo'')
   \<and> ''nor'' \<in> set VALID_GROUP_KEYS
   \<and> run_logical_op_group
        \<lparr>run_single = (\<lambda>sub :: string \<times> unit. Inr [VBool True]),
         get_item_result_callback = (\<lambda>entry. Inl NotImplementedError),
         call_entry = (\<lambda>entry. if entry then Inr (VBool True) else Inl (OtherError ''boom''))\<rparr>
        \<lparr>override_name = ''nor'', members = [[True], [False]]\<rparr>
       = Inl (OtherError ''boom'')
   \<and> (\<exists>e'. run_collection
        \<lparr>run_single = (\<lambda>sub :: string \<times> unit. Inr [VBool True]),
         get_item_result_callback = (\<lambda>entry. Inl NotImplementedError),
         call_entry = (\<lambda>entry. if entry then Inr (VBool True) else Inl (OtherError ''boom''))\<rparr>
        [\<lparr>op_groups = (\<lambda>op. if op = ''nor''
              then Some \<lparr>override_name = ''nor'', members = [[True], [False]]\<rparr> else None),
          subitems = []\<rparr>]
       = Inl e')
   \<and> run_collection
        \<lparr>run_single = (\<lambda>sub :: string \<times> unit. Inr [VBool True]),
         get_item_result_callback = (\<lambda>entry. Inl NotImplementedError),
         call_entry = (\<lambda>entry. if entry then Inr (VBool True) else Inl (OtherError ''boom''))\<rparr>
        [\<lparr>op_groups = (\<lambda>op.
              if op = ''or'' then Some \<lparr>override_name = ''or'', members = [[True], [True]]\<rparr>
              else if op = ''nand'' then Some \<lparr>override_name = ''nand'', members = [[True]]\<rparr>
              else None),
          subitems = [(''foo'', ()), (''or'', ())]\<rparr>]
       = Inr False
   \<and> run_level
        \<lparr>run_single = (\<lambda>sub :: string \<times> unit. Inr [VBool True]),
         get_item_result_callback = (\<lambda>entry. Inl NotImplementedError),
         call_entry = (\<lambda>entry. if entry then Inr (VBool True) else Inl (OtherError ''boom''))\<rparr>
        [\<lparr>op_groups = (\<lambda>op.
              if op = ''or'' then Some \<lparr>override_name = ''or'', members = [[True], [True]]\<rparr>
              else if op = ''nand'' then Some \<lparr>override_name = ''nand'', members = [[True]]\<rparr>
              else None),
          subitems = [(''foo'', ()), (''or'', ())]\<rparr>]
       = Inr [VBool True, VBool False, VBool True]"
proof -
  let ?h = "\<lparr>run_single = (\<lambda>sub :: string \<times> unit. Inr [VBool True]),
         get_item_result_callback = (\<lambda>entry. Inl NotImplementedError),
         call_entry = (\<lambda>entry. if entry then Inr (VBool True) else Inl (OtherError ''boom''))\<rparr>"
  let ?g = "\<lparr>override_name = ''foo'', members = [[True]]\<rparr>"
  let ?gn = "\<lparr>override_name = ''nor'', members = [[True], [False]]\<rparr>"
  let ?it = "\<lparr>op_groups = (\<lambda>op. if op = ''nor'' then Some ?gn else None),
          subitems = ([] :: (string \<times> unit) list)\<rparr>"
  let ?lone = "\<lparr>op_groups = (\<lambda>op.
              if op = ''or'' then Some \<lparr>override_name = ''or'', members = [[True], [True]]\<rparr>
              else if op = ''nand'' then Some \<lparr>override_name = ''nand'', members = [[True]]\<rparr>
              else None),
          subitems = [(''foo'', ()), (''or'', ())]\<rparr>"
  note T = unknown_operator_raised_by_group_evaluation [where g = ?g and h = ?h
      and it = ?it and level = "[?it]" and op = "''nor''" and ?g1.0 = ?gn and ?h1.0 = ?h
      and e = "OtherError ''boom''" and ?h0.0 = ?h and ?level0.0 = "[?lone]"
      and gv = "\<lambda>it op. op = ''or''" and rs = "\<lambda>sub. [VBool True]"]
  have n: "override_name ?g \<notin> set VALID_GROUP_KEYS"
    by (simp add: VALID_GROUP_KEYS_def)
  have v: "''nor'' \<in> set VALID_GROUP_KEYS"
    by (simp add: VALID_GROUP_KEYS_def)
  have b: "run_logical_op_group ?h ?gn = Inl (OtherError ''boom'')"
    by (simp add: run_logical_op_group_def group_results_def entry_result_def)
  have r1: "run_logical_op_group ?h ?g = Inl (UnknownLogicalOperator ''foo'')"
    using T [THEN conjunct1] n by simp
  have r2: "\<exists>e'. run_collection ?h [?it] = Inl e'"
    using T [THEN conjunct2, THEN conjunct1] v b by simp
  have r3: "run_level ?h [?lone] = Inr [VBool True, VBool False, VBool True]
      \<and> run_collection ?h [?lone] = Inr False"
    using T [THEN conjunct2, THEN conjunct2]
    by (simp add: VALID_GROUP_KEYS_def run_logical_op_group_def group_results_def
        entry_result_def py_all_def py_any_def)
  show ?thesis
    by (intro conjI n r1 v b r2 r3 [THEN conjunct2] r3 [THEN conjunct1])
qed

end
